theory Spec2Isabelle
  imports Complex_Main
begin

section \<open>JavaScript values\<close>

text \<open>
  The values that \<^verbatim>\<open>server.js\<close> handles are request bodies, upstream bodies and the
  object literals it builds from them. They are modelled by one type of JavaScript values:
  \<^item> \<open>JUndefined\<close> is \<^verbatim>\<open>undefined\<close> (what reading an absent property gives);
  \<^item> a number is an exact real (every finite double is one; \<^verbatim>\<open>-0\<close> and \<^verbatim>\<open>0\<close> are both
    the falsy \<open>0\<close>; \<^verbatim>\<open>JSON.parse\<close> never produces \<^verbatim>\<open>NaN\<close>);
  \<^item> a string is a \<open>char list\<close>;
  \<^item> an object is the list of its own properties, read with \<open>map_of\<close>;
  \<^item> \<open>JNative n\<close> is a built-in function or object that every object inherits from
    \<^verbatim>\<open>Object.prototype\<close> under the property name \<open>n\<close>.
\<close>

datatype json =
    JUndefined
  | JNull
  | JBool bool
  | JNum real
  | JStr string
  | JArr "json list"
  | JObj "(string \<times> json) list"
  | JNative string

text \<open>Truthiness, as \<^verbatim>\<open>!x\<close>, \<^verbatim>\<open>x || y\<close> and \<^verbatim>\<open>if (x)\<close> test it.\<close>

fun truthy :: "json \<Rightarrow> bool" where
  "truthy JUndefined = False"
| "truthy JNull = False"
| "truthy (JBool b) = b"
| "truthy (JNum r) = (r \<noteq> 0)"
| "truthy (JStr s) = (s \<noteq> [])"
| "truthy (JArr xs) = True"
| "truthy (JObj kvs) = True"
| "truthy (JNative n) = True"

text \<open>\<^verbatim>\<open>a || b\<close>\<close>

definition or_else :: "json \<Rightarrow> json \<Rightarrow> json" where
  "or_else a b = (if truthy a then a else b)"

fun nullish :: "json \<Rightarrow> bool" where
  "nullish JUndefined = True"
| "nullish JNull = True"
| "nullish v = False"

text \<open>\<^verbatim>\<open>typeof x === 'string'\<close> and \<^verbatim>\<open>Array.isArray(x)\<close>\<close>

fun is_string :: "json \<Rightarrow> bool" where
  "is_string (JStr s) = True"
| "is_string v = False"

fun isArray :: "json \<Rightarrow> bool" where
  "isArray (JArr xs) = True"
| "isArray v = False"

text \<open>
  The property names of \<^verbatim>\<open>Object.prototype\<close>. Every value but \<^verbatim>\<open>undefined\<close> and
  \<^verbatim>\<open>null\<close> answers a read of one of them with a built-in function or object (its own
  prototype's or the one inherited from \<^verbatim>\<open>Object.prototype\<close>), which is truthy.
\<close>

definition object_prototype_names :: "string list" where
  "object_prototype_names =
     [''constructor'', ''__defineGetter__'', ''__defineSetter__'', ''hasOwnProperty'',
      ''__lookupGetter__'', ''__lookupSetter__'', ''isPrototypeOf'',
      ''propertyIsEnumerable'', ''toString'', ''valueOf'', ''__proto__'',
      ''toLocaleString'']"

definition inherited :: "string \<Rightarrow> json" where
  "inherited k = (if k \<in> set object_prototype_names then JNative k else JUndefined)"

text \<open>
  \<open>get_prop v k\<close> is \<^verbatim>\<open>v[k]\<close> for a \<open>v\<close> that is neither \<^verbatim>\<open>undefined\<close> nor \<^verbatim>\<open>null\<close>:
  an own property first, an inherited one otherwise. On arrays, strings, numbers and
  booleans only the names of \<^verbatim>\<open>Object.prototype\<close> are modelled (the program reads no
  name such as \<^verbatim>\<open>length\<close> from an upstream value); their indexed elements are read
  with \<open>opt_index0\<close>.
\<close>

fun get_prop :: "json \<Rightarrow> string \<Rightarrow> json" where
  "get_prop (JObj kvs) k = (case map_of kvs k of Some v \<Rightarrow> v | None \<Rightarrow> inherited k)"
| "get_prop v k = inherited k"

text \<open>\<^verbatim>\<open>v?.k\<close>: \<^verbatim>\<open>undefined\<close> when \<open>v\<close> is \<^verbatim>\<open>undefined\<close> or \<^verbatim>\<open>null\<close>.\<close>

definition opt_prop :: "json \<Rightarrow> string \<Rightarrow> json" where
  "opt_prop v k = (if nullish v then JUndefined else get_prop v k)"

text \<open>
  \<^verbatim>\<open>v?.[0]\<close>: the first element of an array, the first character of a string, the
  property \<^verbatim>\<open>"0"\<close> of an object, \<^verbatim>\<open>undefined\<close> otherwise.
\<close>

fun opt_index0 :: "json \<Rightarrow> json" where
  "opt_index0 (JArr xs) = (case xs of [] \<Rightarrow> JUndefined | x # _ \<Rightarrow> x)"
| "opt_index0 (JStr s) = (case s of [] \<Rightarrow> JUndefined | c # _ \<Rightarrow> JStr [c])"
| "opt_index0 (JObj kvs) = (case map_of kvs ''0'' of Some v \<Rightarrow> v | None \<Rightarrow> JUndefined)"
| "opt_index0 v = JUndefined"

text \<open>Whether an object has an own property, and \<^verbatim>\<open>delete obj[k]\<close>.\<close>

fun has_own :: "json \<Rightarrow> string \<Rightarrow> bool" where
  "has_own (JObj kvs) k = (k \<in> fst ` set kvs)"
| "has_own v k = False"

fun delete_prop :: "json \<Rightarrow> string \<Rightarrow> json" where
  "delete_prop (JObj kvs) k = JObj (filter (\<lambda>kv. fst kv \<noteq> k) kvs)"
| "delete_prop v k = v"

text \<open>
  An error object as the \<^verbatim>\<open>catch\<close> block reads it: its \<^verbatim>\<open>message\<close> and its
  \<^verbatim>\<open>response\<close> (\<^verbatim>\<open>undefined\<close> unless the HTTP client attached the upstream's reply).
\<close>

record js_error =
  err_message :: json
  err_response :: json

definition TypeError :: "string \<Rightarrow> js_error" where
  "TypeError msg = \<lparr>err_message = JStr msg, err_response = JUndefined\<rparr>"

text \<open>
  \<^verbatim>\<open>v.k\<close> without \<^verbatim>\<open>?.\<close>: reading a property of \<^verbatim>\<open>undefined\<close> or \<^verbatim>\<open>null\<close> throws a
  \<^verbatim>\<open>TypeError\<close>.
\<close>

definition show_nullish :: "json \<Rightarrow> string" where
  "show_nullish v = (if v = JNull then ''null'' else ''undefined'')"

definition read_prop :: "json \<Rightarrow> string \<Rightarrow> js_error + json" where
  "read_prop v k =
     (if nullish v
      then Inl (TypeError (''Cannot read properties of '' @ show_nullish v @
                           '' (reading '' @ [CHR 0x27] @ k @ [CHR 0x27] @ '')''))
      else Inr (get_prop v k))"

text \<open>\<^verbatim>\<open>Object.keys(obj)\<close>: the names of the own properties.\<close>

fun keys :: "json \<Rightarrow> string list" where
  "keys (JObj kvs) = map fst kvs"
| "keys v = []"

text \<open>
  \<^verbatim>\<open>obj[k] = f(obj[k])\<close> and \<^verbatim>\<open>arr[0] = f(arr[0])\<close>: the in-place updates through
  which \<^verbatim>\<open>delete openaiChunk.choices[0].delta.role\<close> reaches the nested object.
\<close>

fun update_prop :: "json \<Rightarrow> string \<Rightarrow> (json \<Rightarrow> json) \<Rightarrow> json" where
  "update_prop (JObj kvs) k f = JObj (map (\<lambda>kv. if fst kv = k then (k, f (snd kv)) else kv) kvs)"
| "update_prop v k f = v"

fun update_index0 :: "json \<Rightarrow> (json \<Rightarrow> json) \<Rightarrow> json" where
  "update_index0 (JArr (x # xs)) f = JArr (f x # xs)"
| "update_index0 v f = v"

section \<open>Model Resolver\<close>

definition DEFAULT_NIM_MODEL :: json where
  "DEFAULT_NIM_MODEL = JStr ''meta/llama-3.1-70b-instruct''"

definition MODEL_MAPPING :: json where
  "MODEL_MAPPING = JObj
     [(''gpt-3.5-turbo'', JStr ''meta/llama-3.1-8b-instruct''),
      (''gpt-4'', JStr ''meta/llama-3.1-70b-instruct''),
      (''gpt-4-turbo'', JStr ''meta/llama-3.1-405b-instruct''),
      (''gpt-4o'', JStr ''meta/llama-3.1-405b-instruct''),
      (''gpt-4o-mini'', JStr ''meta/llama-3.1-8b-instruct''),
      (''claude-3-opus'', JStr ''meta/llama-3.1-405b-instruct''),
      (''claude-3-sonnet'', JStr ''meta/llama-3.1-70b-instruct''),
      (''claude-3-haiku'', JStr ''meta/llama-3.1-8b-instruct''),
      (''gemini-pro'', JStr ''meta/llama-3.1-70b-instruct'')]"

text \<open>\<^verbatim>\<open>let nimModel = MODEL_MAPPING[model] || DEFAULT_NIM_MODEL\<close>, for a string \<open>model\<close>.\<close>

definition nimModel :: "string \<Rightarrow> json" where
  "nimModel model = or_else (get_prop MODEL_MAPPING model) DEFAULT_NIM_MODEL"

section \<open>Time and text\<close>

text \<open>
  \<^verbatim>\<open>Date.now()\<close> reads the system clock. The clock is the sequence of its successive
  readings (milliseconds); the state counts the readings taken so far.
\<close>

type_synonym clock = "nat \<Rightarrow> int"

definition Date_now :: "clock \<Rightarrow> nat \<Rightarrow> int \<times> nat" where
  "Date_now clock n = (clock n, Suc n)"

text \<open>The decimal text of an integer, as a template literal prints it.\<close>

definition digit :: "nat \<Rightarrow> char" where
  "digit d = ''0123456789'' ! d"

fun show_nat :: "nat \<Rightarrow> string" where
  "show_nat n = (if n < 10 then [digit n] else show_nat (n div 10) @ [digit (n mod 10)])"

definition show_int :: "int \<Rightarrow> string" where
  "show_int i = (if i < 0 then ''-'' @ show_nat (nat (- i)) else show_nat (nat i))"

text \<open>\<^verbatim>\<open>s.split('\n')\<close>: never empty; the last element is the text after the last newline.\<close>

fun split_nl :: "string \<Rightarrow> string list" where
  "split_nl [] = [[]]"
| "split_nl (c # cs) =
     (if c = CHR 0x0A then [] # split_nl cs
      else (case split_nl cs of [] \<Rightarrow> [[c]] | l # ls \<Rightarrow> (c # l) # ls))"

text \<open>\<^verbatim>\<open>s.startsWith(p)\<close>, \<^verbatim>\<open>s.includes(p)\<close> and \<^verbatim>\<open>s.slice(n)\<close> (which is \<open>drop n s\<close>).\<close>

definition startsWith :: "string \<Rightarrow> string \<Rightarrow> bool" where
  "startsWith s p = (take (length p) s = p)"

fun includes_str :: "string \<Rightarrow> string \<Rightarrow> bool" where
  "includes_str [] p = (p = [])"
| "includes_str (c # cs) p = (startsWith (c # cs) p \<or> includes_str cs p)"

section \<open>Stream Reframer\<close>

text \<open>
  What the handler does to the response: \<open>Write_data obj\<close> is
  \<^verbatim>\<open>res.write(`data: ${JSON.stringify(obj)}\n\n`)\<close>, \<open>Write_done\<close> is
  \<^verbatim>\<open>res.write('data: [DONE]\n\n')\<close>, \<open>End_response\<close> is \<^verbatim>\<open>res.end()\<close>.
  What it prints with \<^verbatim>\<open>console.error\<close> is a \<open>log_entry\<close>.
\<close>

datatype res_event = Write_data json | Write_done | End_response

datatype log_entry = Stream_parse_error | Stream_error | Proxy_error json

text \<open>
  The object literal \<^verbatim>\<open>openaiChunk\<close> for a parsed upstream event \<open>nimData\<close> that is
  neither \<^verbatim>\<open>undefined\<close> nor \<^verbatim>\<open>null\<close>; \<open>t1\<close> and \<open>t2\<close> are the two clock readings.
\<close>

definition openaiChunk :: "int \<Rightarrow> int \<Rightarrow> json \<Rightarrow> json \<Rightarrow> json" where
  "openaiChunk t1 t2 model nimData =
     (let choice = opt_index0 (get_prop nimData ''choices'') in
      JObj
       [(''id'', JStr (''chatcmpl-'' @ show_int t1)),
        (''object'', JStr ''chat.completion.chunk''),
        (''created'', JNum (of_int (t2 div 1000))),
        (''model'', model),
        (''choices'', JArr
          [JObj
            [(''index'', JNum 0),
             (''delta'', JObj
               [(''role'', opt_prop (opt_prop choice ''delta'') ''role''),
                (''content'', or_else (opt_prop (opt_prop choice ''delta'') ''content'') (JStr ''''))]),
             (''finish_reason'', or_else (opt_prop choice ''finish_reason'') JNull)]])])"

text \<open>
  \<^verbatim>\<open>if (!openaiChunk.choices[0].delta.role) { delete openaiChunk.choices[0].delta.role; }\<close>
\<close>

definition remove_undefined_role :: "json \<Rightarrow> json" where
  "remove_undefined_role chunk =
     (if \<not> truthy (get_prop (get_prop (opt_index0 (get_prop chunk ''choices'')) ''delta'') ''role'')
      then update_prop chunk ''choices''
             (\<lambda>choices. update_index0 choices
                (\<lambda>choice. update_prop choice ''delta'' (\<lambda>delta. delete_prop delta ''role'')))
      else chunk)"

text \<open>
  The body of \<^verbatim>\<open>lines.forEach\<close> for one line. \<open>JSON_parse\<close> is the runtime's
  \<^verbatim>\<open>JSON.parse\<close>, \<open>None\<close> where it throws. The result is what was written, what was
  logged, and the count of clock readings. The literal reads the clock twice before it
  reads \<^verbatim>\<open>nimData.choices\<close>, which throws on \<^verbatim>\<open>null\<close>; the \<^verbatim>\<open>catch\<close> logs either failure.
\<close>

definition process_line ::
  "(string \<Rightarrow> json option) \<Rightarrow> clock \<Rightarrow> json \<Rightarrow> nat \<Rightarrow> string \<Rightarrow>
     res_event list \<times> log_entry list \<times> nat" where
  "process_line JSON_parse clock model n line =
     (if startsWith line ''data: '' then
        if includes_str line ''[DONE]'' then ([Write_done], [], n)
        else
          (case JSON_parse (drop 6 line) of
             None \<Rightarrow> ([], [Stream_parse_error], n)
           | Some nimData \<Rightarrow>
               (let (t1, n1) = Date_now clock n;
                    (t2, n2) = Date_now clock n1
                in if nullish nimData then ([], [Stream_parse_error], n2)
                   else ([Write_data (remove_undefined_role (openaiChunk t1 t2 model nimData))],
                         [], n2)))
      else ([], [], n))"

fun forEach_line ::
  "(string \<Rightarrow> json option) \<Rightarrow> clock \<Rightarrow> json \<Rightarrow> nat \<Rightarrow> string list \<Rightarrow>
     res_event list \<times> log_entry list \<times> nat" where
  "forEach_line JSON_parse clock model n [] = ([], [], n)"
| "forEach_line JSON_parse clock model n (line # lines) =
     (case process_line JSON_parse clock model n line of
        (w, g, n') \<Rightarrow>
          (case forEach_line JSON_parse clock model n' lines of
             (ws, gs, n'') \<Rightarrow> (w @ ws, g @ gs, n'')))"

text \<open>The per-request state: the carry buffer and the count of clock readings.\<close>

record stream_state =
  buffer :: string
  readings :: nat

text \<open>
  \<^verbatim>\<open>response.data.on('data', ...)\<close> for one chunk whose text is \<open>chunk\<close>.
  \<^verbatim>\<open>lines.pop() || ''\<close> is the last element of the split, which is a string.
\<close>

definition on_data ::
  "(string \<Rightarrow> json option) \<Rightarrow> clock \<Rightarrow> json \<Rightarrow> stream_state \<Rightarrow> string \<Rightarrow>
     res_event list \<times> log_entry list \<times> stream_state" where
  "on_data JSON_parse clock model st chunk =
     (let lines = split_nl (buffer st @ chunk);
          popped = (if lines = [] \<or> last lines = [] then [] else last lines)
      in case forEach_line JSON_parse clock model (readings st) (butlast lines) of
           (w, g, n) \<Rightarrow> (w, g, \<lparr>buffer = popped, readings = n\<rparr>))"

text \<open>
  The events of the upstream stream, in the order the transport delivers them, and the
  three listeners. A stream that ends normally is \<open>map Data chunks @ [End]\<close>.
\<close>

datatype stream_event = Data string | End | Error

fun response_data_on ::
  "(string \<Rightarrow> json option) \<Rightarrow> clock \<Rightarrow> json \<Rightarrow> stream_state \<Rightarrow> stream_event list \<Rightarrow>
     res_event list \<times> log_entry list \<times> stream_state" where
  "response_data_on JSON_parse clock model st [] = ([], [], st)"
| "response_data_on JSON_parse clock model st (Data chunk # es) =
     (case on_data JSON_parse clock model st chunk of
        (w, g, st') \<Rightarrow>
          (case response_data_on JSON_parse clock model st' es of
             (ws, gs, st'') \<Rightarrow> (w @ ws, g @ gs, st'')))"
| "response_data_on JSON_parse clock model st (End # es) =
     (case response_data_on JSON_parse clock model st es of
        (ws, gs, st'') \<Rightarrow> ([Write_done, End_response] @ ws, gs, st''))"
| "response_data_on JSON_parse clock model st (Error # es) =
     (case response_data_on JSON_parse clock model st es of
        (ws, gs, st'') \<Rightarrow> ([End_response] @ ws, [Stream_error] @ gs, st''))"

section \<open>Response Normalizer\<close>

text \<open>
  The object literal \<^verbatim>\<open>openaiResponse\<close> built from \<^verbatim>\<open>response.data\<close>. The literal reads
  \<^verbatim>\<open>response.data.choices\<close> without \<^verbatim>\<open>?.\<close>, so a body that is \<^verbatim>\<open>null\<close> or \<^verbatim>\<open>undefined\<close>
  throws.
\<close>

definition openaiResponse :: "int \<Rightarrow> int \<Rightarrow> json \<Rightarrow> json \<Rightarrow> js_error + json" where
  "openaiResponse t1 t2 model data =
     (case read_prop data ''choices'' of
        Inl e \<Rightarrow> Inl e
      | Inr choices \<Rightarrow>
          (let choice = opt_index0 choices;
               usage = get_prop data ''usage''
           in Inr (JObj
             [(''id'', JStr (''chatcmpl-'' @ show_int t1)),
              (''object'', JStr ''chat.completion''),
              (''created'', JNum (of_int (t2 div 1000))),
              (''model'', model),
              (''choices'', JArr
                [JObj
                  [(''index'', JNum 0),
                   (''message'', JObj
                     [(''role'', JStr ''assistant''),
                      (''content'',
                         or_else (opt_prop (opt_prop choice ''message'') ''content'') (JStr ''''))]),
                   (''finish_reason'', or_else (opt_prop choice ''finish_reason'') (JStr ''stop''))]]),
              (''usage'', JObj
                [(''prompt_tokens'', or_else (opt_prop usage ''prompt_tokens'') (JNum 0)),
                 (''completion_tokens'', or_else (opt_prop usage ''completion_tokens'') (JNum 0)),
                 (''total_tokens'', or_else (opt_prop usage ''total_tokens'') (JNum 0))])])))"

section \<open>Request Handler\<close>

text \<open>
  What one request does: the bodies it posted to the upstream, its reply (a status and
  a JSON body, or an event stream with the writes made to it) and what it logged.
\<close>

datatype http_reply = Json_reply json json | Event_stream "res_event list"

record outcome =
  upstream_calls :: "json list"
  reply :: http_reply
  logged :: "log_entry list"

definition error_envelope :: "json \<Rightarrow> json \<Rightarrow> json \<Rightarrow> json" where
  "error_envelope message param code =
     JObj [(''error'', JObj
       [(''message'', message),
        (''type'', JStr ''invalid_request_error''),
        (''param'', param),
        (''code'', code)])]"

text \<open>The \<^verbatim>\<open>catch (error)\<close> block.\<close>

definition statusCode :: "js_error \<Rightarrow> json" where
  "statusCode e = or_else (opt_prop (err_response e) ''status'') (JNum 500)"

definition errorMessage :: "js_error \<Rightarrow> json" where
  "errorMessage e =
     or_else (opt_prop (opt_prop (opt_prop (err_response e) ''data'') ''error'') ''message'')
       (or_else (err_message e) (JStr ''Internal server error''))"

definition catch_error :: "json list \<Rightarrow> js_error \<Rightarrow> outcome" where
  "catch_error calls e =
     \<lparr>upstream_calls = calls,
      reply = Json_reply (statusCode e) (error_envelope (errorMessage e) JNull (statusCode e)),
      logged = [Proxy_error (or_else (opt_prop (err_response e) ''data'') (err_message e))]\<rparr>"

text \<open>
  The key under which a string indexes an object is the string itself. Only strings
  reach the table lookup: the handler has rejected every other \<^verbatim>\<open>model\<close> before.
\<close>

fun property_key :: "json \<Rightarrow> string" where
  "property_key (JStr s) = s"
| "property_key v = []"

fun array_length :: "json \<Rightarrow> nat" where
  "array_length (JArr xs) = length xs"
| "array_length v = 0"

definition nimRequest :: "json \<Rightarrow> json" where
  "nimRequest body =
     (let temperature = get_prop body ''temperature'' in
      JObj
       [(''model'', nimModel (property_key (get_prop body ''model''))),
        (''messages'', get_prop body ''messages''),
        (''temperature'', if temperature \<noteq> JUndefined then temperature else JNum 0.7),
        (''max_tokens'', or_else (get_prop body ''max_tokens'') (JNum 2048)),
        (''stream'', or_else (get_prop body ''stream'') (JBool False))])"

text \<open>
  \<^verbatim>\<open>app.post('/v1/chat/completions', ...)\<close> on the parsed body \<^verbatim>\<open>req.body\<close>.
  \<open>post_json\<close> and \<open>post_stream\<close> are \<^verbatim>\<open>axios.post\<close> with \<^verbatim>\<open>responseType\<close> \<^verbatim>\<open>'json'\<close> and
  \<^verbatim>\<open>'stream'\<close>: \<open>Inl\<close> the error it rejects with, \<open>Inr\<close> the \<^verbatim>\<open>response.data\<close> (the parsed
  body, or the events of the stream). Destructuring a body that is \<^verbatim>\<open>undefined\<close> or \<^verbatim>\<open>null\<close>
  throws into the \<^verbatim>\<open>catch\<close> block. \<open>n\<close> counts the clock readings taken before.
\<close>

definition chat_completions ::
  "(string \<Rightarrow> json option) \<Rightarrow> clock \<Rightarrow> (json \<Rightarrow> js_error + json) \<Rightarrow>
     (json \<Rightarrow> js_error + stream_event list) \<Rightarrow> nat \<Rightarrow> json \<Rightarrow> outcome" where
  "chat_completions JSON_parse clock post_json post_stream n body =
     (if nullish body
      then catch_error []
             (TypeError (''Cannot destructure property '' @ [CHR 0x27] @ ''model'' @ [CHR 0x27] @
                         '' of '' @ [CHR 0x27] @ ''req.body'' @ [CHR 0x27] @ '' as it is '' @
                         show_nullish body @ ''.''))
      else
        (let model = get_prop body ''model'';
             messages = get_prop body ''messages'';
             stream = get_prop body ''stream''
         in if \<not> truthy model \<or> \<not> is_string model then
              \<lparr>upstream_calls = [],
               reply = Json_reply (JNum 400)
                 (error_envelope (JStr ''you must provide a model parameter'') (JStr ''model'') JNull),
               logged = []\<rparr>
            else if \<not> truthy messages \<or> \<not> isArray messages \<or> array_length messages = 0 then
              \<lparr>upstream_calls = [],
               reply = Json_reply (JNum 400)
                 (error_envelope (JStr ''messages is required and must be a non-empty array'')
                    (JStr ''messages'') JNull),
               logged = []\<rparr>
            else if truthy stream then
              (case post_stream (nimRequest body) of
                 Inl e \<Rightarrow> catch_error [nimRequest body] e
               | Inr events \<Rightarrow>
                   (case response_data_on JSON_parse clock model \<lparr>buffer = [], readings = n\<rparr> events of
                      (w, g, st) \<Rightarrow>
                        \<lparr>upstream_calls = [nimRequest body], reply = Event_stream w, logged = g\<rparr>))
            else
              (case post_json (nimRequest body) of
                 Inl e \<Rightarrow> catch_error [nimRequest body] e
               | Inr data \<Rightarrow>
                   (let (t1, n1) = Date_now clock n;
                        (t2, n2) = Date_now clock n1
                    in case openaiResponse t1 t2 model data of
                         Inl e \<Rightarrow> catch_error [nimRequest body] e
                       | Inr envelope \<Rightarrow>
                           \<lparr>upstream_calls = [nimRequest body],
                            reply = Json_reply (JNum 200) envelope,
                            logged = []\<rparr>))))"

section \<open>Vocabulary of the properties\<close>

text \<open>
  The line test of the reframer that makes it write the terminal sentinel, and the role
  that an upstream event supplies: \<^verbatim>\<open>nimData.choices?.[0]?.delta?.role\<close>.
\<close>

definition sentinel_line :: "string \<Rightarrow> bool" where
  "sentinel_line line = (startsWith line ''data: '' \<and> includes_str line ''[DONE]'')"

definition delta_role :: "json \<Rightarrow> json" where
  "delta_role nimData =
     opt_prop (opt_prop (opt_index0 (get_prop nimData ''choices'')) ''delta'') ''role''"

text \<open>The first upstream choice: \<^verbatim>\<open>x.choices?.[0]\<close>, for an \<open>x\<close> that is not \<^verbatim>\<open>null\<close>.\<close>

definition first_choice :: "json \<Rightarrow> json" where
  "first_choice x = opt_index0 (get_prop x ''choices'')"

text \<open>
  An inbound request as the data model has it: a body that is an object (anything but
  \<^verbatim>\<open>undefined\<close> and \<^verbatim>\<open>null\<close> can be destructured), whose \<^verbatim>\<open>model\<close> is a non-empty string
  and whose \<^verbatim>\<open>messages\<close> is a non-empty sequence.
\<close>

fun nonempty_string :: "json \<Rightarrow> bool" where
  "nonempty_string (JStr s) = (s \<noteq> [])"
| "nonempty_string v = False"

fun nonempty_array :: "json \<Rightarrow> bool" where
  "nonempty_array (JArr xs) = (xs \<noteq> [])"
| "nonempty_array v = False"

definition valid_request :: "json \<Rightarrow> bool" where
  "valid_request body =
     (\<not> nullish body \<and> nonempty_string (get_prop body ''model'')
      \<and> nonempty_array (get_prop body ''messages''))"

text \<open>
  A completion envelope with no required field missing: each key is an own property whose
  value is not \<^verbatim>\<open>undefined\<close> (\<^verbatim>\<open>JSON.stringify\<close> leaves out a key whose value is). Its
  usage counters are non-negative when each is a number that is at least \<open>0\<close>.
\<close>

fun nonneg_number :: "json \<Rightarrow> bool" where
  "nonneg_number (JNum r) = (0 \<le> r)"
| "nonneg_number v = False"

definition usage_counters :: "string list" where
  "usage_counters = [''prompt_tokens'', ''completion_tokens'', ''total_tokens'']"

definition usage_nonneg :: "json \<Rightarrow> bool" where
  "usage_nonneg envelope =
     list_all (\<lambda>k. nonneg_number (get_prop (get_prop envelope ''usage'') k)) usage_counters"

definition present :: "json \<Rightarrow> string \<Rightarrow> bool" where
  "present obj k = (has_own obj k \<and> get_prop obj k \<noteq> JUndefined)"

definition complete_envelope :: "json \<Rightarrow> bool" where
  "complete_envelope envelope =
     (list_all (present envelope) [''id'', ''object'', ''created'', ''model'', ''choices'', ''usage'']
      \<and> list_all (present (opt_index0 (get_prop envelope ''choices'')))
           [''index'', ''message'', ''finish_reason'']
      \<and> list_all (present (get_prop (opt_index0 (get_prop envelope ''choices'')) ''message''))
           [''role'', ''content'']
      \<and> list_all (present (get_prop envelope ''usage'')) usage_counters)"

section \<open>A JSON reader for the examples\<close>

text \<open>
  The theorems below hold for whatever \<^verbatim>\<open>JSON.parse\<close> does. Their examples need one
  parser to run: \<open>read_json\<close> reads objects, arrays, strings without escapes, unsigned
  integers and the three literals, with white space between tokens, and rejects any
  other text. Of a key that occurs twice the last value is kept. The fuel bounds the
  nesting depth by the length of the text.
\<close>

definition is_space :: "char \<Rightarrow> bool" where
  "is_space c = (c = CHR '' '' \<or> c = CHR 0x09 \<or> c = CHR 0x0A \<or> c = CHR 0x0D)"

definition skip_ws :: "string \<Rightarrow> string" where
  "skip_ws s = dropWhile is_space s"

definition is_digit :: "char \<Rightarrow> bool" where
  "is_digit c = (c \<in> set ''0123456789'')"

definition digit_value :: "char \<Rightarrow> nat" where
  "digit_value c = length (takeWhile (\<lambda>d. d \<noteq> c) ''0123456789'')"

definition digits_value :: "string \<Rightarrow> nat" where
  "digits_value ds = foldl (\<lambda>n c. 10 * n + digit_value c) 0 ds"

fun read_string :: "string \<Rightarrow> (string \<times> string) option" where
  "read_string [] = None"
| "read_string (c # cs) =
     (if c = CHR 0x22 then Some ([], cs)
      else if c = CHR 0x5C then None
      else (case read_string cs of None \<Rightarrow> None | Some (s, r) \<Rightarrow> Some (c # s, r)))"

fun read_value :: "nat \<Rightarrow> string \<Rightarrow> (json \<times> string) option"
  and read_elements :: "nat \<Rightarrow> string \<Rightarrow> (json list \<times> string) option"
  and read_members :: "nat \<Rightarrow> string \<Rightarrow> ((string \<times> json) list \<times> string) option" where
  "read_value 0 s = None"
| "read_value (Suc f) s =
     (case skip_ws s of
        [] \<Rightarrow> None
      | c # cs \<Rightarrow>
          if c = CHR ''{'' then
            (case skip_ws cs of
               [] \<Rightarrow> None
             | d # ds \<Rightarrow>
                 if d = CHR ''}'' then Some (JObj [], ds)
                 else (case read_members f (d # ds) of
                         None \<Rightarrow> None
                       | Some (kvs, r) \<Rightarrow> Some (JObj kvs, r)))
          else if c = CHR ''['' then
            (case skip_ws cs of
               [] \<Rightarrow> None
             | d # ds \<Rightarrow>
                 if d = CHR '']'' then Some (JArr [], ds)
                 else (case read_elements f (d # ds) of
                         None \<Rightarrow> None
                       | Some (vs, r) \<Rightarrow> Some (JArr vs, r)))
          else if c = CHR 0x22 then
            (case read_string cs of None \<Rightarrow> None | Some (str, r) \<Rightarrow> Some (JStr str, r))
          else if take 4 (c # cs) = ''true'' then Some (JBool True, drop 4 (c # cs))
          else if take 5 (c # cs) = ''false'' then Some (JBool False, drop 5 (c # cs))
          else if take 4 (c # cs) = ''null'' then Some (JNull, drop 4 (c # cs))
          else if is_digit c then
            Some (JNum (of_nat (digits_value (takeWhile is_digit (c # cs)))),
                  dropWhile is_digit (c # cs))
          else None)"
| "read_elements 0 s = None"
| "read_elements (Suc f) s =
     (case read_value f s of
        None \<Rightarrow> None
      | Some (v, r) \<Rightarrow>
          (case skip_ws r of
             [] \<Rightarrow> None
           | c # r' \<Rightarrow>
               if c = CHR '']'' then Some ([v], r')
               else if c = CHR '','' then
                 (case read_elements f r' of
                    None \<Rightarrow> None
                  | Some (vs, r'') \<Rightarrow> Some (v # vs, r''))
               else None))"
| "read_members 0 s = None"
| "read_members (Suc f) s =
     (case skip_ws s of
        [] \<Rightarrow> None
      | q # s1 \<Rightarrow>
          if q \<noteq> CHR 0x22 then None
          else
            (case read_string s1 of
               None \<Rightarrow> None
             | Some (k, s2) \<Rightarrow>
                 (case skip_ws s2 of
                    [] \<Rightarrow> None
                  | c # s3 \<Rightarrow>
                      if c \<noteq> CHR '':'' then None
                      else
                        (case read_value f s3 of
                           None \<Rightarrow> None
                         | Some (v, r) \<Rightarrow>
                             (case skip_ws r of
                                [] \<Rightarrow> None
                              | e # r' \<Rightarrow>
                                  if e = CHR ''}'' then Some ([(k, v)], r')
                                  else if e = CHR '','' then
                                    (case read_members f r' of
                                       None \<Rightarrow> None
                                     | Some (kvs, r'') \<Rightarrow>
                                         Some (if k \<in> fst ` set kvs then kvs else (k, v) # kvs, r''))
                                  else None)))))"

definition read_json :: "string \<Rightarrow> json option" where
  "read_json s =
     (case read_value (Suc (length s)) s of
        None \<Rightarrow> None
      | Some (v, r) \<Rightarrow> if skip_ws r = [] then Some v else None)"

section \<open>Example inputs\<close>

text \<open>
  The event line of the round-trip property, \<^verbatim>\<open>data: {"choices":[{"delta":{"content":"A"}}]}\<close>
  with its newline, the object it denotes, and a clock.
\<close>

definition sample_event :: string where
  \<open>sample_event = ''{"choices":[{"delta":{"content":"A"}}]}''\<close>

definition sample_object :: json where
  "sample_object = JObj [(''choices'', JArr [JObj [(''delta'', JObj [(''content'', JStr ''A'')])]])]"

definition sample_data :: string where
  "sample_data = ''data: '' @ sample_event"

definition sample_line :: string where
  "sample_line = sample_data @ [CHR 0x0A]"

definition sample_clock :: clock where
  "sample_clock n = 1700000000000 + int n"

definition sample_chunk :: json where
  "sample_chunk = JObj
     [(''id'', JStr ''chatcmpl-1700000000000''),
      (''object'', JStr ''chat.completion.chunk''),
      (''created'', JNum 1700000000),
      (''model'', JStr ''foo-bar''),
      (''choices'', JArr
        [JObj
          [(''index'', JNum 0),
           (''delta'', JObj [(''content'', JStr ''A'')]),
           (''finish_reason'', JNull)]])]"

text \<open>An event whose delta carries a role, a line that is not JSON, and a sentinel line.\<close>

definition role_data :: string where
  \<open>role_data = ''data: {"choices":[{"delta":{"role":"assistant","content":"Hi"}}]}''\<close>

definition role_object :: json where
  "role_object = JObj
     [(''choices'', JArr
        [JObj [(''delta'', JObj [(''role'', JStr ''assistant''), (''content'', JStr ''Hi'')])]])]"


definition done_line :: string where
  "done_line = ''data: [DONE]'' @ [CHR 0x0A]"

text \<open>
  Requests, and an upstream that answers every request with the same body, the same
  error or the same stream.
\<close>

definition sample_messages :: json where
  "sample_messages = JArr [JObj [(''role'', JStr ''user''), (''content'', JStr ''hi'')]]"

definition sample_request :: "string \<Rightarrow> bool \<Rightarrow> json" where
  "sample_request name streaming =
     JObj [(''model'', JStr name), (''messages'', sample_messages), (''stream'', JBool streaming)]"

definition sample_upstream_text :: string where
  \<open>sample_upstream_text =
     ''{"choices":[{"message":{"content":"hello"},"finish_reason":"stop"}],'' @
     ''"usage":{"prompt_tokens":3,"completion_tokens":1,"total_tokens":4}}''\<close>

definition sample_upstream_body :: json where
  "sample_upstream_body = JObj
     [(''choices'', JArr
        [JObj [(''message'', JObj [(''content'', JStr ''hello'')]),
               (''finish_reason'', JStr ''stop'')]]),
      (''usage'', JObj
        [(''prompt_tokens'', JNum 3), (''completion_tokens'', JNum 1), (''total_tokens'', JNum 4)])]"

definition sample_envelope :: json where
  "sample_envelope = JObj
     [(''id'', JStr ''chatcmpl-1700000000000''),
      (''object'', JStr ''chat.completion''),
      (''created'', JNum 1700000000),
      (''model'', JStr ''foo-bar''),
      (''choices'', JArr
        [JObj
          [(''index'', JNum 0),
           (''message'', JObj [(''role'', JStr ''assistant''), (''content'', JStr ''hello'')]),
           (''finish_reason'', JStr ''stop'')]]),
      (''usage'', JObj
        [(''prompt_tokens'', JNum 3), (''completion_tokens'', JNum 1), (''total_tokens'', JNum 4)])]"

text \<open>An upstream body and an upstream event with two choices, after another property.\<close>

definition two_choice_body :: json where
  "two_choice_body = JObj
     [(''id'', JStr ''cmpl-1''),
      (''choices'', JArr
        [JObj [(''message'', JObj [(''content'', JStr ''hello'')]),
               (''finish_reason'', JStr ''stop'')],
         JObj [(''message'', JObj [(''content'', JStr ''other'')]),
               (''finish_reason'', JStr ''length'')]]),
      (''usage'', JObj
        [(''prompt_tokens'', JNum 3), (''completion_tokens'', JNum 1), (''total_tokens'', JNum 4)])]"

definition two_choice_data :: string where
  \<open>two_choice_data =
     ''data: {"id":"cmpl-1","choices":[{"delta":{"content":"A"}},{"delta":{"content":"B"}}]}''\<close>

definition two_choice_object :: json where
  "two_choice_object = JObj
     [(''id'', JStr ''cmpl-1''),
      (''choices'', JArr
        [JObj [(''delta'', JObj [(''content'', JStr ''A'')])],
         JObj [(''delta'', JObj [(''content'', JStr ''B'')])]])]"

definition negative_usage_body :: json where
  "negative_usage_body = JObj [(''usage'', JObj [(''prompt_tokens'', JNum (- 1))])]"

definition sample_post_json :: "json \<Rightarrow> js_error + json" where
  "sample_post_json request = Inr sample_upstream_body"

definition sample_upstream_error :: js_error where
  "sample_upstream_error =
     \<lparr>err_message = JStr ''Request failed with status code 404'',
      err_response = JObj
        [(''status'', JNum 404),
         (''data'', JObj [(''error'', JObj [(''message'', JStr ''model not found'')])])]\<rparr>"

definition failing_post_json :: "json \<Rightarrow> js_error + json" where
  "failing_post_json request = Inl sample_upstream_error"

definition sample_events :: "stream_event list" where
  "sample_events = [Data (take 7 sample_line), Data (drop 7 sample_line), End]"

definition sample_post_stream :: "json \<Rightarrow> js_error + stream_event list" where
  "sample_post_stream request = Inr sample_events"

section \<open>Properties of the Model Resolver\<close>

lemma nimModel_known:
  "name \<in> set (keys MODEL_MAPPING) \<Longrightarrow>
     nimModel name = get_prop MODEL_MAPPING name \<and> is_string (nimModel name)"
  by (auto simp: nimModel_def MODEL_MAPPING_def or_else_def)

lemma nimModel_unknown:
  "name \<notin> set (keys MODEL_MAPPING) \<Longrightarrow> name \<notin> set object_prototype_names \<Longrightarrow>
     nimModel name = DEFAULT_NIM_MODEL"
  by (simp add: nimModel_def MODEL_MAPPING_def or_else_def inherited_def)

lemma nimModel_examples:
  "nimModel ''gpt-4-turbo'' = JStr ''meta/llama-3.1-405b-instruct''"
  "nimModel ''foo-bar'' = DEFAULT_NIM_MODEL"
  "nimModel [] = DEFAULT_NIM_MODEL"
  "nimModel ''GPT-4'' = DEFAULT_NIM_MODEL"
  "nimModel ''123'' = DEFAULT_NIM_MODEL"
  by (simp_all add: nimModel_def MODEL_MAPPING_def or_else_def inherited_def
      object_prototype_names_def)

text \<open>
  C2. The resolver is meant to return the table's entry for a key of the table and the
  default for every other string. A string that names a property of \<^verbatim>\<open>Object.prototype\<close>
  is no key of the table, yet \<^verbatim>\<open>MODEL_MAPPING[model]\<close> finds the inherited built-in, which
  is truthy, so \<^verbatim>\<open>||\<close> never reaches the default: for \<^verbatim>\<open>"constructor"\<close> the resolved model
  is a function, not the default identifier.
\<close>

theorem C2_inherited_name:
  "''constructor'' \<notin> set (keys MODEL_MAPPING)
   \<and> nimModel ''constructor'' = JNative ''constructor''
   \<and> nimModel ''constructor'' \<noteq> DEFAULT_NIM_MODEL"
  by (simp add: nimModel_def MODEL_MAPPING_def or_else_def inherited_def
      object_prototype_names_def DEFAULT_NIM_MODEL_def)

section \<open>Properties of the Stream Reframer\<close>

subsection \<open>Lines and chunks\<close>

lemma split_nl_not_Nil: "split_nl s \<noteq> []"
  by (induction s) (auto split: list.splits)

lemma split_nl_no_newline: "CHR 0x0A \<notin> set b \<Longrightarrow> split_nl b = [b]"
  by (induction b) auto

lemma last_split_nl_no_newline: "CHR 0x0A \<notin> set (last (split_nl s))"
  by (induction s) (auto simp: split_nl_not_Nil split: list.splits)

text \<open>
  Splitting a text that arrives in two parts: the complete lines of the first part, then
  the split of what the first part left over followed by the second part.
\<close>

lemma split_nl_append:
  "split_nl (a @ b) = butlast (split_nl a) @ split_nl (last (split_nl a) @ b)"
proof (induction a)
  case Nil
  show ?case by simp
next
  case (Cons c a)
  show ?case
  proof (cases "c = CHR 0x0A")
    case True
    with Cons show ?thesis by (simp add: split_nl_not_Nil)
  next
    case False
    show ?thesis
    proof (cases "split_nl a")
      case Nil
      then show ?thesis using split_nl_not_Nil by blast
    next
      case (Cons l ls)
      show ?thesis
      proof (cases ls)
        case Nil
        with Cons \<open>split_nl a = l # ls\<close> False Cons.IH show ?thesis by simp
      next
        case (Cons l2 ls2)
        with \<open>split_nl a = l # ls\<close> False Cons.IH show ?thesis by simp
      qed
    qed
  qed
qed

lemma forEach_line_append:
  "forEach_line P clock model n (xs @ ys) =
     (case forEach_line P clock model n xs of
        (w, g, n') \<Rightarrow>
          (case forEach_line P clock model n' ys of
             (ws, gs, n'') \<Rightarrow> (w @ ws, g @ gs, n'')))"
  by (induction xs arbitrary: n) (auto split: prod.splits)

lemma on_data_append:
  "on_data P clock model st (c1 @ c2) =
     (case on_data P clock model st c1 of
        (w, g, st') \<Rightarrow>
          (case on_data P clock model st' c2 of
             (ws, gs, st'') \<Rightarrow> (w @ ws, g @ gs, st'')))"
proof -
  let ?a = "buffer st @ c1"
  have s: "split_nl (buffer st @ c1 @ c2) =
             butlast (split_nl ?a) @ split_nl (last (split_nl ?a) @ c2)"
    using split_nl_append [of ?a c2] by simp
  have ne: "split_nl (last (split_nl ?a) @ c2) \<noteq> []" by (rule split_nl_not_Nil)
  show ?thesis
    unfolding on_data_def Let_def
    by (simp add: s ne split_nl_not_Nil butlast_append forEach_line_append split: prod.splits)
qed

text \<open>
  A run of chunks processes exactly the complete lines of the concatenated text, in
  order, and leaves its last, unfinished line in the buffer.
\<close>

lemma run_chunks:
  "CHR 0x0A \<notin> set (buffer st) \<Longrightarrow>
   response_data_on P clock model st (map Data cs @ es) =
     (case forEach_line P clock model (readings st) (butlast (split_nl (buffer st @ concat cs))) of
        (w, g, n) \<Rightarrow>
          (case response_data_on P clock model
                  \<lparr>buffer = last (split_nl (buffer st @ concat cs)), readings = n\<rparr> es of
             (ws, gs, st') \<Rightarrow> (w @ ws, g @ gs, st')))"
proof (induction cs arbitrary: st)
  case Nil
  then show ?case by (cases st) (simp add: split_nl_no_newline split: prod.splits)
next
  case (Cons c cs)
  let ?a = "buffer st @ c"
  obtain w g n where
    fe: "forEach_line P clock model (readings st) (butlast (split_nl ?a)) = (w, g, n)"
    by (cases "forEach_line P clock model (readings st) (butlast (split_nl ?a))") auto
  let ?st1 = "\<lparr>buffer = last (split_nl ?a), readings = n\<rparr>"
  have od: "on_data P clock model st c = (w, g, ?st1)"
    by (simp add: on_data_def fe split_nl_not_Nil)
  have nl: "CHR 0x0A \<notin> set (buffer ?st1)"
    by (simp add: last_split_nl_no_newline)
  have s: "split_nl (buffer st @ c @ concat cs) =
             butlast (split_nl ?a) @ split_nl (last (split_nl ?a) @ concat cs)"
    using split_nl_append [of ?a "concat cs"] by simp
  have ne: "split_nl (last (split_nl ?a) @ concat cs) \<noteq> []" by (rule split_nl_not_Nil)
  show ?case
    using Cons.IH [OF nl]
    by (simp add: od s ne butlast_append forEach_line_append fe split: prod.splits)
qed

lemma stream_writes:
  "fst (response_data_on P clock model \<lparr>buffer = [], readings = n\<rparr> (map Data cs @ [End])) =
     fst (forEach_line P clock model n (butlast (split_nl (concat cs)))) @ [Write_done, End_response]"
  using run_chunks [of "\<lparr>buffer = [], readings = n\<rparr>" P clock model cs "[End]"]
  by (simp split: prod.splits)

lemma two_chunks:
  "fst (response_data_on P clock model st [Data c1, Data c2]) =
     fst (on_data P clock model st (c1 @ c2))"
  by (simp add: on_data_append split: prod.splits)

text \<open>A stream that the transport breaks is closed without a sentinel of its own.\<close>

lemma broken_stream_writes:
  "fst (response_data_on P clock model \<lparr>buffer = [], readings = n\<rparr> (map Data cs @ [Error])) =
     fst (forEach_line P clock model n (butlast (split_nl (concat cs)))) @ [End_response]"
  using run_chunks [of "\<lparr>buffer = [], readings = n\<rparr>" P clock model cs "[Error]"]
  by (simp split: prod.splits)

subsection \<open>The example lines\<close>

lemmas reader_defs =
  read_json_def skip_ws_def is_space_def is_digit_def digits_value_def digit_value_def

lemma read_json_sample_event: "read_json sample_event = Some sample_object"
  by (simp add: reader_defs sample_event_def sample_object_def)

lemma read_json_role_event: "read_json (drop 6 role_data) = Some role_object"
  by (simp add: reader_defs role_data_def role_object_def)


lemma split_sample: "split_nl sample_line = [sample_data, []]"
  by (simp add: sample_line_def sample_data_def sample_event_def)

lemma sample_data_line:
  "startsWith sample_data ''data: ''"
  "\<not> includes_str sample_data ''[DONE]''"
  "drop 6 sample_data = sample_event"
  by (simp_all add: sample_data_def sample_event_def startsWith_def)

lemma show_sample_time: "show_int (sample_clock 0) = ''1700000000000''"
  by (simp add: show_int_def sample_clock_def digit_def)

lemma sample_created: "sample_clock (Suc 0) div 1000 = 1700000000"
  by (simp add: sample_clock_def)

lemma chunk_shape:
  "remove_undefined_role (openaiChunk t1 t2 model nimData) =
     JObj
       [(''id'', JStr (''chatcmpl-'' @ show_int t1)),
        (''object'', JStr ''chat.completion.chunk''),
        (''created'', JNum (of_int (t2 div 1000))),
        (''model'', model),
        (''choices'', JArr
          [JObj
            [(''index'', JNum 0),
             (''delta'',
                if truthy (delta_role nimData)
                then JObj
                  [(''role'', delta_role nimData),
                   (''content'',
                      or_else (opt_prop (opt_prop (opt_index0 (get_prop nimData ''choices'')) ''delta'')
                                 ''content'') (JStr ''''))]
                else JObj
                  [(''content'',
                      or_else (opt_prop (opt_prop (opt_index0 (get_prop nimData ''choices'')) ''delta'')
                                 ''content'') (JStr ''''))]),
             (''finish_reason'',
                or_else (opt_prop (opt_index0 (get_prop nimData ''choices'')) ''finish_reason'')
                  JNull)]])]"
  by (simp add: remove_undefined_role_def openaiChunk_def delta_role_def Let_def)

lemma sample_chunk_eq:
  "remove_undefined_role
     (openaiChunk (sample_clock 0) (sample_clock (Suc 0)) (JStr ''foo-bar'') sample_object) =
   sample_chunk"
  unfolding chunk_shape
  by (simp add: show_sample_time sample_created sample_chunk_def sample_object_def delta_role_def
      opt_prop_def or_else_def inherited_def object_prototype_names_def)

lemma process_sample:
  assumes "JSON_parse sample_event = Some sample_object"
  shows "process_line JSON_parse clock model n sample_data =
     ([Write_data (remove_undefined_role (openaiChunk (clock n) (clock (Suc n)) model sample_object))],
      [], Suc (Suc n))"
  using assms
  by (simp add: process_line_def sample_data_line Date_now_def sample_object_def)

lemma on_data_sample:
  assumes "JSON_parse sample_event = Some sample_object"
  shows "on_data JSON_parse clock model \<lparr>buffer = [], readings = n\<rparr> sample_line =
     ([Write_data (remove_undefined_role (openaiChunk (clock n) (clock (Suc n)) model sample_object))],
      [], \<lparr>buffer = [], readings = Suc (Suc n)\<rparr>)"
  using process_sample [where JSON_parse = JSON_parse and clock = clock and model = model
      and n = n, OF assms]
  by (simp add: on_data_def split_sample)

lemma sample_content:
  "get_prop (get_prop (opt_index0
     (get_prop (remove_undefined_role (openaiChunk t1 t2 model sample_object)) ''choices''))
       ''delta'') ''content'' = JStr ''A''"
  unfolding chunk_shape
  by (simp add: sample_object_def delta_role_def opt_prop_def or_else_def inherited_def
      object_prototype_names_def)

subsection \<open>A line split across two chunks\<close>

text \<open>
  C3. Let the line \<^verbatim>\<open>data: {"choices":[{"delta":{"content":"A"}}]}\<close> with its newline be
  cut at any offset \<open>k\<close> into two chunks that are fed one after the other to a fresh
  reframer, where \<^verbatim>\<open>JSON.parse\<close> reads the event as the object it denotes. Then exactly one
  record is written, and the \<^verbatim>\<open>content\<close> of its delta is \<^verbatim>\<open>"A"\<close>. More generally, from any
  state, feeding a text in two chunks writes and logs what feeding it in one chunk does
  and ends in the same state: no line is dropped, written in part or handled twice. A
  chunk is the text that \<^verbatim>\<open>chunk.toString()\<close> gives.
\<close>

theorem C3_split_line:
  assumes "JSON_parse sample_event = Some sample_object"
  shows "(\<exists>chunk.
            fst (response_data_on JSON_parse clock model \<lparr>buffer = [], readings = n\<rparr>
                   [Data (take k sample_line), Data (drop k sample_line)]) = [Write_data chunk]
            \<and> get_prop (get_prop (opt_index0 (get_prop chunk ''choices'')) ''delta'') ''content''
                = JStr ''A'')
         \<and> on_data JSON_parse clock model st (c1 @ c2) =
              (case on_data JSON_parse clock model st c1 of
                 (w, g, st') \<Rightarrow>
                   (case on_data JSON_parse clock model st' c2 of
                      (ws, gs, st'') \<Rightarrow> (w @ ws, g @ gs, st'')))"
proof -
  let ?st = "\<lparr>buffer = [], readings = n\<rparr>"
  have "fst (response_data_on JSON_parse clock model ?st
               [Data (take k sample_line), Data (drop k sample_line)]) =
        fst (on_data JSON_parse clock model ?st (take k sample_line @ drop k sample_line))"
    by (rule two_chunks)
  also have "\<dots> = fst (on_data JSON_parse clock model ?st sample_line)"
    by simp
  finally have "fst (response_data_on JSON_parse clock model ?st
               [Data (take k sample_line), Data (drop k sample_line)]) =
     [Write_data (remove_undefined_role (openaiChunk (clock n) (clock (Suc n)) model sample_object))]"
    by (simp add: on_data_sample [where JSON_parse = JSON_parse, OF assms])
  then show ?thesis
    using sample_content on_data_append by blast
qed

theorem C3_split_line_witness:
  "read_json sample_event = Some sample_object
   \<and> fst (response_data_on read_json sample_clock (JStr ''foo-bar'') \<lparr>buffer = [], readings = 0\<rparr>
            [Data (take 7 sample_line), Data (drop 7 sample_line)]) = [Write_data sample_chunk]
   \<and> get_prop (get_prop (opt_index0 (get_prop sample_chunk ''choices'')) ''delta'') ''content''
       = JStr ''A''"
proof -
  let ?st = "\<lparr>buffer = [], readings = 0\<rparr>"
  from C3_split_line [where JSON_parse = read_json and clock = sample_clock
      and model = "JStr ''foo-bar''" and n = 0 and k = 7, OF read_json_sample_event]
  obtain chunk where
    w: "fst (response_data_on read_json sample_clock (JStr ''foo-bar'') ?st
            [Data (take 7 sample_line), Data (drop 7 sample_line)]) = [Write_data chunk]"
    and c: "get_prop (get_prop (opt_index0 (get_prop chunk ''choices'')) ''delta'') ''content''
              = JStr ''A''"
    by blast
  have "fst (response_data_on read_json sample_clock (JStr ''foo-bar'') ?st
            [Data (take 7 sample_line), Data (drop 7 sample_line)]) =
        fst (on_data read_json sample_clock (JStr ''foo-bar'') ?st
              (take 7 sample_line @ drop 7 sample_line))"
    by (rule two_chunks)
  also have "\<dots> = [Write_data sample_chunk]"
    by (simp add: on_data_sample [where JSON_parse = read_json, OF read_json_sample_event]
        sample_chunk_eq)
  finally have "chunk = sample_chunk" using w by simp
  with w c read_json_sample_event show ?thesis by simp
qed

subsection \<open>The terminal sentinel\<close>

lemma count_process_line:
  "count_list (fst (process_line P clock model n line)) Write_done =
     (if sentinel_line line then 1 else 0)"
  by (simp add: process_line_def sentinel_line_def Date_now_def split: option.splits)

lemma count_forEach_line:
  "count_list (fst (forEach_line P clock model n ls)) Write_done = length (filter sentinel_line ls)"
proof (induction ls arbitrary: n)
  case Nil
  show ?case by simp
next
  case (Cons l ls)
  obtain w g n' where p: "process_line P clock model n l = (w, g, n')"
    by (cases "process_line P clock model n l") auto
  have "count_list w Write_done = (if sentinel_line l then 1 else 0)"
    using count_process_line [of P clock model n l] by (simp add: p)
  then show ?case
    using Cons.IH [of n'] by (auto simp: p split: prod.splits)
qed

text \<open>
  C1, as stated: the sentinel is written exactly once per stream, also when the upstream
  sends a \<^verbatim>\<open>[DONE]\<close> line and then ends. It fails: the \<^verbatim>\<open>data\<close> listener forwards the
  upstream's sentinel and the \<^verbatim>\<open>end\<close> listener writes one more.
\<close>

theorem C1_double_sentinel:
  "fst (response_data_on read_json sample_clock (JStr ''foo-bar'') \<lparr>buffer = [], readings = 0\<rparr>
          [Data done_line, End]) = [Write_done, Write_done, End_response]
   \<and> count_list
        (fst (response_data_on read_json sample_clock (JStr ''foo-bar'')
                \<lparr>buffer = [], readings = 0\<rparr> [Data done_line, End])) Write_done \<noteq> 1"
proof -
  have s: "split_nl done_line = [''data: [DONE]'', []]"
    by (simp add: done_line_def)
  have p: "process_line read_json sample_clock (JStr ''foo-bar'') 0 ''data: [DONE]'' =
             ([Write_done], [], 0)"
    by (simp add: process_line_def startsWith_def)
  have "on_data read_json sample_clock (JStr ''foo-bar'') \<lparr>buffer = [], readings = 0\<rparr> done_line =
          ([Write_done], [], \<lparr>buffer = [], readings = 0\<rparr>)"
    using p by (simp add: on_data_def s)
  then show ?thesis by simp
qed

text \<open>
  C1, amended. When the stream ends normally, the reframer writes the sentinel once as
  its last record before it closes the response, whatever the upstream sent; before
  that it has written one sentinel for each complete upstream line that starts with
  \<^verbatim>\<open>data: \<close> and contains \<^verbatim>\<open>[DONE]\<close>. So the stream carries exactly one sentinel when no
  such line came, and two when the upstream sent one and then ended.
\<close>

theorem C1_sentinel_count:
  "count_list (fst (response_data_on JSON_parse clock model \<lparr>buffer = [], readings = n\<rparr>
                      (map Data chunks @ [End]))) Write_done
     = 1 + length (filter sentinel_line (butlast (split_nl (concat chunks))))
   \<and> (\<exists>ws. fst (response_data_on JSON_parse clock model \<lparr>buffer = [], readings = n\<rparr>
                   (map Data chunks @ [End])) = ws @ [Write_done, End_response])"
  using count_forEach_line [of JSON_parse clock model n "butlast (split_nl (concat chunks))"]
  by (simp add: stream_writes)

theorem C1_sentinel_count_witness:
  "count_list (fst (response_data_on read_json sample_clock (JStr ''foo-bar'')
                      \<lparr>buffer = [], readings = 0\<rparr>
                      (map Data [take 7 sample_line, drop 7 sample_line] @ [End]))) Write_done = 1
   \<and> count_list (fst (response_data_on read_json sample_clock (JStr ''foo-bar'')
                      \<lparr>buffer = [], readings = 0\<rparr>
                      (map Data [take 9 sample_line, drop 9 sample_line @ done_line] @ [End])))
        Write_done = 2"
proof -
  have a: "concat [take 7 sample_line, drop 7 sample_line] = sample_line"
    by simp
  have b: "concat [take 9 sample_line, drop 9 sample_line @ done_line] = sample_line @ done_line"
    by simp
  have s: "butlast (split_nl (sample_line @ done_line)) = [sample_data, ''data: [DONE]'']"
    by (simp add: split_nl_append [of sample_line] split_sample done_line_def)
  have d: "sentinel_line ''data: [DONE]''" "\<not> sentinel_line sample_data"
    by (simp_all add: sentinel_line_def sample_data_line) (simp add: startsWith_def)
  show ?thesis
    using C1_sentinel_count [of read_json sample_clock "JStr ''foo-bar''" 0
        "[take 7 sample_line, drop 7 sample_line]"]
      C1_sentinel_count [of read_json sample_clock "JStr ''foo-bar''" 0
        "[take 9 sample_line, drop 9 sample_line @ done_line]"]
    by (simp only: a b s split_sample) (simp add: d)
qed

subsection \<open>Lines that do not parse\<close>



subsection \<open>The records written\<close>

lemma process_line_writes:
  assumes "Write_data chunk \<in> set (fst (process_line JSON_parse clock model n line))"
  shows "\<exists>nimData. JSON_parse (drop 6 line) = Some nimData \<and> \<not> nullish nimData
           \<and> chunk = remove_undefined_role (openaiChunk (clock n) (clock (Suc n)) model nimData)"
  using assms
  by (auto simp: process_line_def Date_now_def split: if_splits option.splits)

lemma forEach_line_writes:
  "Write_data chunk \<in> set (fst (forEach_line P clock model n ls)) \<Longrightarrow>
     \<exists>k l. Write_data chunk \<in> set (fst (process_line P clock model k l))"
proof (induction ls arbitrary: n)
  case Nil
  then show ?case by simp
next
  case (Cons l ls)
  obtain w g n' where p: "process_line P clock model n l = (w, g, n')"
    by (cases "process_line P clock model n l") auto
  from Cons.prems p
  have "Write_data chunk \<in> set (fst (process_line P clock model n l))
          \<or> Write_data chunk \<in> set (fst (forEach_line P clock model n' ls))"
    by (auto split: prod.splits)
  then show ?case using Cons.IH by blast
qed

lemma response_data_on_writes:
  "Write_data chunk \<in> set (fst (response_data_on P clock model st es)) \<Longrightarrow>
     \<exists>k l. Write_data chunk \<in> set (fst (process_line P clock model k l))"
proof (induction es arbitrary: st)
  case Nil
  then show ?case by simp
next
  case (Cons e es)
  show ?case
  proof (cases e)
    case (Data c)
    obtain w g st' where od: "on_data P clock model st c = (w, g, st')"
      by (cases "on_data P clock model st c") auto
    from Cons.prems Data od
    have "Write_data chunk \<in> set w
            \<or> Write_data chunk \<in> set (fst (response_data_on P clock model st' es))"
      by (auto split: prod.splits)
    then show ?thesis
    proof
      assume "Write_data chunk \<in> set w"
      moreover have
        "w = fst (forEach_line P clock model (readings st) (butlast (split_nl (buffer st @ c))))"
        using od by (auto simp: on_data_def Let_def split: prod.splits)
      ultimately show ?thesis using forEach_line_writes by blast
    next
      assume "Write_data chunk \<in> set (fst (response_data_on P clock model st' es))"
      then show ?thesis by (rule Cons.IH)
    qed
  next
    case End
    with Cons.prems have "Write_data chunk \<in> set (fst (response_data_on P clock model st es))"
      by (auto split: prod.splits)
    then show ?thesis by (rule Cons.IH)
  next
    case Error
    with Cons.prems have "Write_data chunk \<in> set (fst (response_data_on P clock model st es))"
      by (auto split: prod.splits)
    then show ?thesis by (rule Cons.IH)
  qed
qed

lemma stream_chunk_model:
  assumes "Write_data chunk \<in> set (fst (response_data_on P clock model st es))"
  shows "get_prop chunk ''model'' = model"
proof -
  obtain k l where "Write_data chunk \<in> set (fst (process_line P clock model k l))"
    using response_data_on_writes [OF assms] by blast
  then obtain nimData where
    "chunk = remove_undefined_role (openaiChunk (clock k) (clock (Suc k)) model nimData)"
    using process_line_writes by blast
  then show ?thesis by (simp add: chunk_shape)
qed

lemma process_role_line:
  "process_line read_json sample_clock (JStr ''foo-bar'') 0 role_data =
     ([Write_data (remove_undefined_role
         (openaiChunk (sample_clock 0) (sample_clock (Suc 0)) (JStr ''foo-bar'') role_object))],
      [], Suc (Suc 0))"
proof -
  have "startsWith role_data ''data: ''" "\<not> includes_str role_data ''[DONE]''"
    by (simp_all add: role_data_def startsWith_def)
  then show ?thesis
    by (simp add: process_line_def read_json_role_event Date_now_def role_object_def)
qed

lemma role_of_role_object: "delta_role role_object = JStr ''assistant''"
  by (simp add: delta_role_def role_object_def opt_prop_def)

text \<open>
  C4. For every record that a line makes the reframer write, the delta of the record has
  an own \<^verbatim>\<open>role\<close> key exactly when the role that the upstream event supplies
  (\<^verbatim>\<open>nimData.choices?.[0]?.delta?.role\<close>) is truthy, which for a string means non-empty;
  the key then holds the upstream's role. When the upstream role is absent
  (\<^verbatim>\<open>undefined\<close>), \<^verbatim>\<open>null\<close> or the empty string, the delta has no \<^verbatim>\<open>role\<close> key at all.
\<close>

theorem C4_role_key:
  assumes "Write_data chunk \<in> set (fst (process_line JSON_parse clock model n line))"
  shows "\<exists>nimData delta.
           JSON_parse (drop 6 line) = Some nimData
         \<and> get_prop (opt_index0 (get_prop chunk ''choices'')) ''delta'' = delta
         \<and> (has_own delta ''role'' \<longleftrightarrow> truthy (delta_role nimData))
         \<and> (has_own delta ''role'' \<longrightarrow> get_prop delta ''role'' = delta_role nimData)
         \<and> (delta_role nimData = JUndefined \<or> delta_role nimData = JNull
              \<or> delta_role nimData = JStr [] \<longrightarrow> \<not> has_own delta ''role'')
         \<and> (\<forall>s. delta_role nimData = JStr s \<longrightarrow> (has_own delta ''role'' \<longleftrightarrow> s \<noteq> []))"
proof -
  obtain nimData where p: "JSON_parse (drop 6 line) = Some nimData"
    and c: "chunk = remove_undefined_role (openaiChunk (clock n) (clock (Suc n)) model nimData)"
    using process_line_writes [OF assms] by blast
  show ?thesis
  proof (cases "truthy (delta_role nimData)")
    case True
    then show ?thesis by (auto simp: p c chunk_shape)
  next
    case False
    then show ?thesis by (auto simp: p c chunk_shape)
  qed
qed

theorem C4_role_key_witness:
  "Write_data (remove_undefined_role
       (openaiChunk (sample_clock 0) (sample_clock (Suc 0)) (JStr ''foo-bar'') role_object))
     \<in> set (fst (process_line read_json sample_clock (JStr ''foo-bar'') 0 role_data))
   \<and> has_own (get_prop (opt_index0 (get_prop (remove_undefined_role
         (openaiChunk (sample_clock 0) (sample_clock (Suc 0)) (JStr ''foo-bar'') role_object))
           ''choices'')) ''delta'') ''role''
   \<and> \<not> has_own (get_prop (opt_index0 (get_prop sample_chunk ''choices'')) ''delta'') ''role''"
proof -
  let ?chunk = "remove_undefined_role
       (openaiChunk (sample_clock 0) (sample_clock (Suc 0)) (JStr ''foo-bar'') role_object)"
  have m: "Write_data ?chunk
             \<in> set (fst (process_line read_json sample_clock (JStr ''foo-bar'') 0 role_data))"
    by (simp add: process_role_line)
  from C4_role_key [where JSON_parse = read_json, OF m]
  have "has_own (get_prop (opt_index0 (get_prop ?chunk ''choices'')) ''delta'') ''role''
          \<longleftrightarrow> truthy (delta_role role_object)"
    by (simp add: read_json_role_event)
  then have "has_own (get_prop (opt_index0 (get_prop ?chunk ''choices'')) ''delta'') ''role''"
    by (simp add: role_of_role_object)
  moreover have
    "\<not> has_own (get_prop (opt_index0 (get_prop sample_chunk ''choices'')) ''delta'') ''role''"
    by (simp add: sample_chunk_def)
  ultimately show ?thesis using m by blast
qed

section \<open>Properties of the Response Normalizer\<close>

lemma or_else_defined: "b \<noteq> JUndefined \<Longrightarrow> or_else a b \<noteq> JUndefined"
  by (cases a) (auto simp: or_else_def)

lemma nonneg_or_else:
  "u = JUndefined \<or> nonneg_number u \<Longrightarrow> nonneg_number (or_else u (JNum 0))"
  by (cases u) (auto simp: or_else_def)

lemma openaiResponse_object:
  "openaiResponse t1 t2 model (JObj kvs) =
     Inr (JObj
       [(''id'', JStr (''chatcmpl-'' @ show_int t1)),
        (''object'', JStr ''chat.completion''),
        (''created'', JNum (of_int (t2 div 1000))),
        (''model'', model),
        (''choices'', JArr
          [JObj
            [(''index'', JNum 0),
             (''message'', JObj
               [(''role'', JStr ''assistant''),
                (''content'',
                   or_else (opt_prop (opt_prop (opt_index0 (get_prop (JObj kvs) ''choices'')) ''message'')
                              ''content'') (JStr ''''))]),
             (''finish_reason'',
                or_else (opt_prop (opt_index0 (get_prop (JObj kvs) ''choices'')) ''finish_reason'')
                  (JStr ''stop''))]]),
        (''usage'', JObj
          [(''prompt_tokens'',
              or_else (opt_prop (get_prop (JObj kvs) ''usage'') ''prompt_tokens'') (JNum 0)),
           (''completion_tokens'',
              or_else (opt_prop (get_prop (JObj kvs) ''usage'') ''completion_tokens'') (JNum 0)),
           (''total_tokens'',
              or_else (opt_prop (get_prop (JObj kvs) ''usage'') ''total_tokens'') (JNum 0))])])"
  by (simp add: openaiResponse_def read_prop_def Let_def)

lemma openaiResponse_model:
  "openaiResponse t1 t2 model data = Inr envelope \<Longrightarrow> get_prop envelope ''model'' = model"
  by (auto simp: openaiResponse_def read_prop_def Let_def split: if_splits)

lemma openaiResponse_total:
  "\<not> nullish data \<Longrightarrow> \<exists>envelope. openaiResponse t1 t2 model data = Inr envelope"
  by (simp add: openaiResponse_def read_prop_def Let_def)

lemma openaiResponse_null:
  "openaiResponse t1 t2 model JNull =
     Inl (TypeError (''Cannot read properties of null (reading '' @ [CHR 0x27] @ ''choices'' @
                     [CHR 0x27] @ '')''))"
  by (simp add: openaiResponse_def read_prop_def show_nullish_def)

lemma sample_envelope_eq:
  "openaiResponse (sample_clock 0) (sample_clock (Suc 0)) (JStr ''foo-bar'') sample_upstream_body =
     Inr sample_envelope"
  unfolding sample_upstream_body_def openaiResponse_object
  by (simp add: show_sample_time sample_created sample_envelope_def opt_prop_def or_else_def)

lemma read_json_sample_upstream: "read_json sample_upstream_text = Some sample_upstream_body"
  by (simp add: reader_defs sample_upstream_text_def sample_upstream_body_def)

text \<open>
  C5, as stated: for every JSON object the envelope's usage counters are at least \<open>0\<close>.
  It fails: a counter that the upstream sends is passed through when it is truthy, so a
  negative one reaches the client.
\<close>

theorem C5_negative_counter:
  "\<not> isl (openaiResponse (sample_clock 0) (sample_clock (Suc 0)) (JStr ''foo-bar'')
            negative_usage_body)
   \<and> get_prop (get_prop (projr (openaiResponse (sample_clock 0) (sample_clock (Suc 0))
        (JStr ''foo-bar'') negative_usage_body)) ''usage'') ''prompt_tokens'' = JNum (- 1)
   \<and> \<not> usage_nonneg (projr (openaiResponse (sample_clock 0) (sample_clock (Suc 0))
        (JStr ''foo-bar'') negative_usage_body))"
  unfolding negative_usage_body_def openaiResponse_object
  by (simp add: usage_nonneg_def usage_counters_def opt_prop_def or_else_def)

text \<open>
  C5, amended. The normalizer is total on JSON objects: for every object, also the empty
  one, it produces an envelope in which no required field is missing. The content is
  the upstream's when that is truthy and \<^verbatim>\<open>""\<close> otherwise, the finish reason the upstream's
  when truthy and \<^verbatim>\<open>"stop"\<close> otherwise, and each usage counter the upstream's when truthy
  and \<open>0\<close> otherwise. The usage counters are all at least \<open>0\<close> whenever each upstream
  counter is absent or a number that is at least \<open>0\<close>.
\<close>

theorem C5_normalizer_total:
  "\<exists>envelope.
      openaiResponse t1 t2 (JStr m) (JObj kvs) = Inr envelope
    \<and> complete_envelope envelope
    \<and> get_prop (get_prop (opt_index0 (get_prop envelope ''choices'')) ''message'') ''content'' =
        (if truthy (opt_prop (opt_prop (opt_index0 (get_prop (JObj kvs) ''choices'')) ''message'')
                      ''content'')
         then opt_prop (opt_prop (opt_index0 (get_prop (JObj kvs) ''choices'')) ''message'') ''content''
         else JStr '''')
    \<and> get_prop (opt_index0 (get_prop envelope ''choices'')) ''finish_reason'' =
        (if truthy (opt_prop (opt_index0 (get_prop (JObj kvs) ''choices'')) ''finish_reason'')
         then opt_prop (opt_index0 (get_prop (JObj kvs) ''choices'')) ''finish_reason''
         else JStr ''stop'')
    \<and> (\<forall>k \<in> set usage_counters.
          get_prop (get_prop envelope ''usage'') k =
            (if truthy (opt_prop (get_prop (JObj kvs) ''usage'') k)
             then opt_prop (get_prop (JObj kvs) ''usage'') k else JNum 0))
    \<and> ((\<forall>k \<in> set usage_counters.
            opt_prop (get_prop (JObj kvs) ''usage'') k = JUndefined
            \<or> nonneg_number (opt_prop (get_prop (JObj kvs) ''usage'') k))
        \<longrightarrow> usage_nonneg envelope)"
  unfolding openaiResponse_object
  by (simp add: complete_envelope_def present_def usage_counters_def usage_nonneg_def
      or_else_defined nonneg_or_else) (simp add: or_else_def)

theorem C5_normalizer_total_witness:
  "openaiResponse (sample_clock 0) (sample_clock (Suc 0)) (JStr ''foo-bar'') sample_upstream_body
     = Inr sample_envelope
   \<and> complete_envelope sample_envelope
   \<and> usage_nonneg sample_envelope
   \<and> (\<exists>envelope. openaiResponse (sample_clock 0) (sample_clock (Suc 0)) (JStr ''foo-bar'') (JObj [])
         = Inr envelope
       \<and> complete_envelope envelope
       \<and> usage_nonneg envelope
       \<and> get_prop (get_prop (opt_index0 (get_prop envelope ''choices'')) ''message'') ''content''
           = JStr ''''
       \<and> get_prop (opt_index0 (get_prop envelope ''choices'')) ''finish_reason'' = JStr ''stop''
       \<and> get_prop (get_prop envelope ''usage'') ''total_tokens'' = JNum 0)"
proof -
  from C5_normalizer_total [of "sample_clock 0" "sample_clock (Suc 0)" "''foo-bar''"
      "[(''choices'', JArr
          [JObj [(''message'', JObj [(''content'', JStr ''hello'')]),
                 (''finish_reason'', JStr ''stop'')]]),
        (''usage'', JObj
          [(''prompt_tokens'', JNum 3), (''completion_tokens'', JNum 1),
           (''total_tokens'', JNum 4)])]"]
  have a: "complete_envelope sample_envelope \<and> usage_nonneg sample_envelope"
    using sample_envelope_eq
    by (auto simp: sample_upstream_body_def usage_counters_def opt_prop_def)
  from C5_normalizer_total [of "sample_clock 0" "sample_clock (Suc 0)" "''foo-bar''" "[]"]
  have b: "\<exists>envelope. openaiResponse (sample_clock 0) (sample_clock (Suc 0)) (JStr ''foo-bar'')
         (JObj []) = Inr envelope
       \<and> complete_envelope envelope
       \<and> usage_nonneg envelope
       \<and> get_prop (get_prop (opt_index0 (get_prop envelope ''choices'')) ''message'') ''content''
           = JStr ''''
       \<and> get_prop (opt_index0 (get_prop envelope ''choices'')) ''finish_reason'' = JStr ''stop''
       \<and> get_prop (get_prop envelope ''usage'') ''total_tokens'' = JNum 0"
    by (auto simp: usage_counters_def opt_prop_def inherited_def object_prototype_names_def)
  from a b sample_envelope_eq show ?thesis by blast
qed

lemma openaiResponse_choices:
  assumes "openaiResponse t1 t2 model data = Inr envelope"
  shows "get_prop envelope ''choices'' = JArr
     [JObj
       [(''index'', JNum 0),
        (''message'', JObj
          [(''role'', JStr ''assistant''),
           (''content'',
              or_else (opt_prop (opt_prop (first_choice data) ''message'') ''content'') (JStr ''''))]),
        (''finish_reason'', or_else (opt_prop (first_choice data) ''finish_reason'') (JStr ''stop''))]]"
  using assms
  by (auto simp: openaiResponse_def read_prop_def first_choice_def Let_def split: if_splits)

lemma chunk_choices:
  "get_prop (remove_undefined_role (openaiChunk t1 t2 model nimData)) ''choices'' = JArr
     [JObj
       [(''index'', JNum 0),
        (''delta'',
           if truthy (opt_prop (opt_prop (first_choice nimData) ''delta'') ''role'')
           then JObj
             [(''role'', opt_prop (opt_prop (first_choice nimData) ''delta'') ''role''),
              (''content'',
                 or_else (opt_prop (opt_prop (first_choice nimData) ''delta'') ''content'') (JStr ''''))]
           else JObj
             [(''content'',
                 or_else (opt_prop (opt_prop (first_choice nimData) ''delta'') ''content'') (JStr ''''))]),
        (''finish_reason'', or_else (opt_prop (first_choice nimData) ''finish_reason'') JNull)]]"
  by (simp add: chunk_shape delta_role_def first_choice_def)

lemma same_first_choice_chunk:
  "first_choice x = first_choice y \<Longrightarrow>
     remove_undefined_role (openaiChunk t1 t2 model x) =
     remove_undefined_role (openaiChunk t1 t2 model y)"
  by (simp add: chunk_shape delta_role_def first_choice_def)

lemma same_first_choice_response:
  "first_choice (JObj kvs) = first_choice (JObj kvs') \<Longrightarrow>
   get_prop (JObj kvs) ''usage'' = get_prop (JObj kvs') ''usage'' \<Longrightarrow>
     openaiResponse t1 t2 model (JObj kvs) = openaiResponse t1 t2 model (JObj kvs')"
  unfolding openaiResponse_object by (simp add: first_choice_def)

lemma sample_stream_writes:
  "fst (response_data_on read_json sample_clock (JStr ''foo-bar'') \<lparr>buffer = [], readings = 0\<rparr>
          sample_events) = [Write_data sample_chunk, Write_done, End_response]"
proof -
  have e: "sample_events = map Data [take 7 sample_line, drop 7 sample_line] @ [End]"
    by (simp add: sample_events_def)
  have l: "butlast (split_nl (concat [take 7 sample_line, drop 7 sample_line])) = [sample_data]"
    by (simp add: split_sample)
  have p: "fst (forEach_line read_json sample_clock (JStr ''foo-bar'') 0 [sample_data]) =
             [Write_data sample_chunk]"
    using process_sample [where JSON_parse = read_json and clock = sample_clock
        and model = "JStr ''foo-bar''" and n = 0, OF read_json_sample_event]
    by (simp add: sample_chunk_eq)
  show ?thesis
    by (simp only: e stream_writes l p) simp
qed

lemma read_json_two_choice: "read_json (drop 6 two_choice_data) = Some two_choice_object"
  by (simp add: reader_defs two_choice_data_def two_choice_object_def)

lemma process_two_choice:
  "process_line read_json sample_clock (JStr ''foo-bar'') 0 two_choice_data =
     ([Write_data (remove_undefined_role
         (openaiChunk (sample_clock 0) (sample_clock (Suc 0)) (JStr ''foo-bar'') two_choice_object))],
      [], Suc (Suc 0))"
proof -
  have "startsWith two_choice_data ''data: ''" "\<not> includes_str two_choice_data ''[DONE]''"
    by (simp_all add: two_choice_data_def startsWith_def)
  then show ?thesis
    by (simp add: process_line_def read_json_two_choice Date_now_def two_choice_object_def)
qed

text \<open>
  C10. Every envelope that the normalizer produces and every record that the reframer
  writes (for one line, and so in any run of stream events) has a \<^verbatim>\<open>choices\<close> array of
  exactly one element, whose \<^verbatim>\<open>index\<close> is \<open>0\<close>. That element is built from the first choice
  of the upstream body, or of the event that \<^verbatim>\<open>JSON.parse\<close> read from the line: the
  envelope's message carries the
  first choice's content (or \<^verbatim>\<open>""\<close>) and finish reason (or \<^verbatim>\<open>"stop"\<close>), the record's delta
  carries the first choice's role (when truthy), content (or \<^verbatim>\<open>""\<close>) and finish reason
  (or \<^verbatim>\<open>null\<close>). Further upstream choices are discarded: wherever \<^verbatim>\<open>choices\<close> stands among
  the properties, a body whose \<^verbatim>\<open>choices\<close> begins with a choice gives the record that a body
  with that choice alone gives, and the same envelope when both carry the same usage.
\<close>

theorem C10_single_choice:
  "(openaiResponse t1 t2 model data = Inr envelope \<longrightarrow>
      get_prop envelope ''choices'' = JArr
        [JObj
          [(''index'', JNum 0),
           (''message'', JObj
             [(''role'', JStr ''assistant''),
              (''content'',
                 or_else (opt_prop (opt_prop (first_choice data) ''message'') ''content'')
                   (JStr ''''))]),
           (''finish_reason'',
              or_else (opt_prop (first_choice data) ''finish_reason'') (JStr ''stop''))]])
   \<and> (Write_data chunk \<in> set (fst (process_line JSON_parse clock model n line)) \<longrightarrow>
      (\<exists>nimData.
          JSON_parse (drop 6 line) = Some nimData
        \<and> get_prop chunk ''choices'' = JArr
            [JObj
              [(''index'', JNum 0),
               (''delta'',
                  if truthy (opt_prop (opt_prop (first_choice nimData) ''delta'') ''role'')
                  then JObj
                    [(''role'', opt_prop (opt_prop (first_choice nimData) ''delta'') ''role''),
                     (''content'',
                        or_else (opt_prop (opt_prop (first_choice nimData) ''delta'') ''content'')
                          (JStr ''''))]
                  else JObj
                    [(''content'',
                        or_else (opt_prop (opt_prop (first_choice nimData) ''delta'') ''content'')
                          (JStr ''''))]),
               (''finish_reason'',
                  or_else (opt_prop (first_choice nimData) ''finish_reason'') JNull)]]))
   \<and> (Write_data written \<in> set (fst (response_data_on JSON_parse clock model st events)) \<longrightarrow>
      (\<exists>upstream_line nimData.
          JSON_parse (drop 6 upstream_line) = Some nimData
        \<and> get_prop written ''choices'' = JArr
            [JObj
              [(''index'', JNum 0),
               (''delta'',
                  if truthy (opt_prop (opt_prop (first_choice nimData) ''delta'') ''role'')
                  then JObj
                    [(''role'', opt_prop (opt_prop (first_choice nimData) ''delta'') ''role''),
                     (''content'',
                        or_else (opt_prop (opt_prop (first_choice nimData) ''delta'') ''content'')
                          (JStr ''''))]
                  else JObj
                    [(''content'',
                        or_else (opt_prop (opt_prop (first_choice nimData) ''delta'') ''content'')
                          (JStr ''''))]),
               (''finish_reason'',
                  or_else (opt_prop (first_choice nimData) ''finish_reason'') JNull)]]))
   \<and> (map_of kvs ''choices'' = Some (JArr (first # others))
        \<and> map_of kvs' ''choices'' = Some (JArr [first]) \<longrightarrow>
        first_choice (JObj kvs) = first
      \<and> remove_undefined_role (openaiChunk t1 t2 model (JObj kvs)) =
          remove_undefined_role (openaiChunk t1 t2 model (JObj kvs'))
      \<and> (get_prop (JObj kvs) ''usage'' = get_prop (JObj kvs') ''usage'' \<longrightarrow>
          openaiResponse t1 t2 model (JObj kvs) = openaiResponse t1 t2 model (JObj kvs')))"
proof (intro conjI impI)
  assume "openaiResponse t1 t2 model data = Inr envelope"
  then show "get_prop envelope ''choices'' = JArr
        [JObj
          [(''index'', JNum 0),
           (''message'', JObj
             [(''role'', JStr ''assistant''),
              (''content'',
                 or_else (opt_prop (opt_prop (first_choice data) ''message'') ''content'')
                   (JStr ''''))]),
           (''finish_reason'',
              or_else (opt_prop (first_choice data) ''finish_reason'') (JStr ''stop''))]]"
    by (rule openaiResponse_choices)
next
  assume "Write_data chunk \<in> set (fst (process_line JSON_parse clock model n line))"
  then obtain nimData where p: "JSON_parse (drop 6 line) = Some nimData"
    and c: "chunk = remove_undefined_role (openaiChunk (clock n) (clock (Suc n)) model nimData)"
    using process_line_writes by blast
  show "\<exists>nimData.
          JSON_parse (drop 6 line) = Some nimData
        \<and> get_prop chunk ''choices'' = JArr
            [JObj
              [(''index'', JNum 0),
               (''delta'',
                  if truthy (opt_prop (opt_prop (first_choice nimData) ''delta'') ''role'')
                  then JObj
                    [(''role'', opt_prop (opt_prop (first_choice nimData) ''delta'') ''role''),
                     (''content'',
                        or_else (opt_prop (opt_prop (first_choice nimData) ''delta'') ''content'')
                          (JStr ''''))]
                  else JObj
                    [(''content'',
                        or_else (opt_prop (opt_prop (first_choice nimData) ''delta'') ''content'')
                          (JStr ''''))]),
               (''finish_reason'',
                  or_else (opt_prop (first_choice nimData) ''finish_reason'') JNull)]]"
    using p unfolding c chunk_choices by blast
next
  assume "Write_data written \<in> set (fst (response_data_on JSON_parse clock model st events))"
  then obtain k l where "Write_data written \<in> set (fst (process_line JSON_parse clock model k l))"
    using response_data_on_writes by blast
  then obtain nimData where q: "JSON_parse (drop 6 l) = Some nimData"
    and w: "written = remove_undefined_role (openaiChunk (clock k) (clock (Suc k)) model nimData)"
    using process_line_writes by blast
  show "\<exists>upstream_line nimData.
          JSON_parse (drop 6 upstream_line) = Some nimData
        \<and> get_prop written ''choices'' = JArr
            [JObj
              [(''index'', JNum 0),
               (''delta'',
                  if truthy (opt_prop (opt_prop (first_choice nimData) ''delta'') ''role'')
                  then JObj
                    [(''role'', opt_prop (opt_prop (first_choice nimData) ''delta'') ''role''),
                     (''content'',
                        or_else (opt_prop (opt_prop (first_choice nimData) ''delta'') ''content'')
                          (JStr ''''))]
                  else JObj
                    [(''content'',
                        or_else (opt_prop (opt_prop (first_choice nimData) ''delta'') ''content'')
                          (JStr ''''))]),
               (''finish_reason'',
                  or_else (opt_prop (first_choice nimData) ''finish_reason'') JNull)]]"
    using q unfolding w chunk_choices by blast
next
  assume a: "map_of kvs ''choices'' = Some (JArr (first # others))
        \<and> map_of kvs' ''choices'' = Some (JArr [first])"
  then show "first_choice (JObj kvs) = first"
    by (simp add: first_choice_def)
next
  assume a: "map_of kvs ''choices'' = Some (JArr (first # others))
        \<and> map_of kvs' ''choices'' = Some (JArr [first])"
  then have "first_choice (JObj kvs) = first_choice (JObj kvs')"
    by (simp add: first_choice_def)
  then show "remove_undefined_role (openaiChunk t1 t2 model (JObj kvs)) =
          remove_undefined_role (openaiChunk t1 t2 model (JObj kvs'))"
    by (rule same_first_choice_chunk)
next
  assume a: "map_of kvs ''choices'' = Some (JArr (first # others))
        \<and> map_of kvs' ''choices'' = Some (JArr [first])"
    and u: "get_prop (JObj kvs) ''usage'' = get_prop (JObj kvs') ''usage''"
  from a have "first_choice (JObj kvs) = first_choice (JObj kvs')"
    by (simp add: first_choice_def)
  then show "openaiResponse t1 t2 model (JObj kvs) = openaiResponse t1 t2 model (JObj kvs')"
    using u by (rule same_first_choice_response)
qed

theorem C10_single_choice_witness:
  "openaiResponse (sample_clock 0) (sample_clock (Suc 0)) (JStr ''foo-bar'') two_choice_body
     = Inr sample_envelope
   \<and> get_prop sample_envelope ''choices'' = JArr
        [JObj
          [(''index'', JNum 0),
           (''message'', JObj [(''role'', JStr ''assistant''), (''content'', JStr ''hello'')]),
           (''finish_reason'', JStr ''stop'')]]
   \<and> read_json (drop 6 two_choice_data) = Some two_choice_object
   \<and> Write_data sample_chunk
       \<in> set (fst (process_line read_json sample_clock (JStr ''foo-bar'') 0 two_choice_data))
   \<and> get_prop sample_chunk ''choices'' = JArr
        [JObj
          [(''index'', JNum 0),
           (''delta'', JObj [(''content'', JStr ''A'')]),
           (''finish_reason'', JNull)]]
   \<and> Write_data sample_chunk
       \<in> set (fst (response_data_on read_json sample_clock (JStr ''foo-bar'')
                     \<lparr>buffer = [], readings = 0\<rparr> sample_events))"
proof -
  let ?two = "[(''id'', JStr ''cmpl-1''),
      (''choices'', JArr
        [JObj [(''message'', JObj [(''content'', JStr ''hello'')]),
               (''finish_reason'', JStr ''stop'')],
         JObj [(''message'', JObj [(''content'', JStr ''other'')]),
               (''finish_reason'', JStr ''length'')]]),
      (''usage'', JObj
        [(''prompt_tokens'', JNum 3), (''completion_tokens'', JNum 1), (''total_tokens'', JNum 4)])]"
  let ?one = "[(''choices'', JArr
        [JObj [(''message'', JObj [(''content'', JStr ''hello'')]),
               (''finish_reason'', JStr ''stop'')]]),
      (''usage'', JObj
        [(''prompt_tokens'', JNum 3), (''completion_tokens'', JNum 1), (''total_tokens'', JNum 4)])]"
  let ?ev2 = "[(''id'', JStr ''cmpl-1''),
      (''choices'', JArr
        [JObj [(''delta'', JObj [(''content'', JStr ''A'')])],
         JObj [(''delta'', JObj [(''content'', JStr ''B'')])]])]"
  let ?ev1 = "[(''choices'', JArr [JObj [(''delta'', JObj [(''content'', JStr ''A'')])]])]"
  have h: "map_of ?two ''choices'' = Some (JArr
        (JObj [(''message'', JObj [(''content'', JStr ''hello'')]), (''finish_reason'', JStr ''stop'')]
         # [JObj [(''message'', JObj [(''content'', JStr ''other'')]),
                  (''finish_reason'', JStr ''length'')]]))
      \<and> map_of ?one ''choices'' = Some (JArr
        [JObj [(''message'', JObj [(''content'', JStr ''hello'')]), (''finish_reason'', JStr ''stop'')]])"
    by simp
  have u: "get_prop (JObj ?two) ''usage'' = get_prop (JObj ?one) ''usage''"
    by simp
  from C10_single_choice [where kvs = ?two and kvs' = ?one and ?t1.0 = "sample_clock 0"
      and ?t2.0 = "sample_clock (Suc 0)" and model = "JStr ''foo-bar''"] h u
  have "openaiResponse (sample_clock 0) (sample_clock (Suc 0)) (JStr ''foo-bar'') (JObj ?two) =
        openaiResponse (sample_clock 0) (sample_clock (Suc 0)) (JStr ''foo-bar'') (JObj ?one)"
    by blast
  then have r: "openaiResponse (sample_clock 0) (sample_clock (Suc 0)) (JStr ''foo-bar'')
       two_choice_body = Inr sample_envelope"
    using sample_envelope_eq by (simp add: two_choice_body_def sample_upstream_body_def)
  have e: "get_prop sample_envelope ''choices'' = JArr
        [JObj
          [(''index'', JNum 0),
           (''message'', JObj [(''role'', JStr ''assistant''), (''content'', JStr ''hello'')]),
           (''finish_reason'', JStr ''stop'')]]"
    by (simp add: sample_envelope_def)
  have g: "map_of ?ev2 ''choices'' = Some (JArr
        (JObj [(''delta'', JObj [(''content'', JStr ''A'')])]
         # [JObj [(''delta'', JObj [(''content'', JStr ''B'')])]]))
      \<and> map_of ?ev1 ''choices'' = Some (JArr [JObj [(''delta'', JObj [(''content'', JStr ''A'')])]])"
    by simp
  from C10_single_choice [where kvs = ?ev2 and kvs' = ?ev1 and ?t1.0 = "sample_clock 0"
      and ?t2.0 = "sample_clock (Suc 0)" and model = "JStr ''foo-bar''"] g
  have "remove_undefined_role
          (openaiChunk (sample_clock 0) (sample_clock (Suc 0)) (JStr ''foo-bar'') (JObj ?ev2)) =
        remove_undefined_role
          (openaiChunk (sample_clock 0) (sample_clock (Suc 0)) (JStr ''foo-bar'') (JObj ?ev1))"
    by blast
  then have "remove_undefined_role
          (openaiChunk (sample_clock 0) (sample_clock (Suc 0)) (JStr ''foo-bar'') two_choice_object) =
        sample_chunk"
    using sample_chunk_eq by (simp add: two_choice_object_def sample_object_def)
  then have m: "Write_data sample_chunk
       \<in> set (fst (process_line read_json sample_clock (JStr ''foo-bar'') 0 two_choice_data))"
    by (simp add: process_two_choice)
  have c: "get_prop sample_chunk ''choices'' = JArr
        [JObj
          [(''index'', JNum 0),
           (''delta'', JObj [(''content'', JStr ''A'')]),
           (''finish_reason'', JNull)]]"
    by (simp add: sample_chunk_def)
  have s: "Write_data sample_chunk
       \<in> set (fst (response_data_on read_json sample_clock (JStr ''foo-bar'')
                     \<lparr>buffer = [], readings = 0\<rparr> sample_events))"
    by (simp add: sample_stream_writes)
  from r e read_json_two_choice m c s show ?thesis by blast
qed

section \<open>Properties of the Request Handler\<close>

lemma nonempty_string_iff: "nonempty_string v \<longleftrightarrow> truthy v \<and> is_string v"
  by (cases v) auto

lemma nonempty_array_iff:
  "nonempty_array v \<longleftrightarrow> truthy v \<and> isArray v \<and> array_length v \<noteq> 0"
  by (cases v) auto

text \<open>A request that passes both checks reaches the upstream, in the mode it asked for.\<close>

lemma valid_request_passes:
  assumes "valid_request body"
  shows "chat_completions JSON_parse clock post_json post_stream n body =
     (if truthy (get_prop body ''stream'') then
        (case post_stream (nimRequest body) of
           Inl e \<Rightarrow> catch_error [nimRequest body] e
         | Inr events \<Rightarrow>
             (case response_data_on JSON_parse clock (get_prop body ''model'')
                     \<lparr>buffer = [], readings = n\<rparr> events of
                (w, g, st) \<Rightarrow>
                  \<lparr>upstream_calls = [nimRequest body], reply = Event_stream w, logged = g\<rparr>))
      else
        (case post_json (nimRequest body) of
           Inl e \<Rightarrow> catch_error [nimRequest body] e
         | Inr data \<Rightarrow>
             (case openaiResponse (clock n) (clock (Suc n)) (get_prop body ''model'') data of
                Inl e \<Rightarrow> catch_error [nimRequest body] e
              | Inr envelope \<Rightarrow>
                  \<lparr>upstream_calls = [nimRequest body],
                   reply = Json_reply (JNum 200) envelope,
                   logged = []\<rparr>)))"
  using assms
  by (simp add: valid_request_def chat_completions_def Let_def Date_now_def nonempty_string_iff
      nonempty_array_iff split: sum.splits)

lemma sample_request_valid: "valid_request (sample_request name streaming) \<longleftrightarrow> name \<noteq> []"
  by (simp add: valid_request_def sample_request_def sample_messages_def)

lemma sample_request_fields:
  "get_prop (sample_request name streaming) ''model'' = JStr name"
  "truthy (get_prop (sample_request name streaming) ''stream'') = streaming"
  by (simp_all add: sample_request_def)

text \<open>
  C7. For every request body that can be destructured: when \<^verbatim>\<open>model\<close> is absent or is not
  a non-empty string, the handler posts nothing to the upstream and replies with status
  400 and an error of type \<^verbatim>\<open>invalid_request_error\<close>, \<^verbatim>\<open>param\<close> \<^verbatim>\<open>"model"\<close> and \<^verbatim>\<open>code\<close> \<^verbatim>\<open>null\<close>,
  whatever \<^verbatim>\<open>messages\<close> is; when \<^verbatim>\<open>model\<close> is a non-empty string and \<^verbatim>\<open>messages\<close> is absent,
  not an array or empty, it posts nothing and replies with status 400 and the same
  error with \<^verbatim>\<open>param\<close> \<^verbatim>\<open>"messages"\<close>.
\<close>

theorem C7_validation:
  assumes "\<not> nullish body"
  shows "(\<not> nonempty_string (get_prop body ''model'') \<longrightarrow>
            chat_completions JSON_parse clock post_json post_stream n body =
              \<lparr>upstream_calls = [],
               reply = Json_reply (JNum 400)
                 (JObj [(''error'', JObj
                    [(''message'', JStr ''you must provide a model parameter''),
                     (''type'', JStr ''invalid_request_error''),
                     (''param'', JStr ''model''),
                     (''code'', JNull)])]),
               logged = []\<rparr>)
       \<and> (nonempty_string (get_prop body ''model'')
            \<and> \<not> nonempty_array (get_prop body ''messages'') \<longrightarrow>
            chat_completions JSON_parse clock post_json post_stream n body =
              \<lparr>upstream_calls = [],
               reply = Json_reply (JNum 400)
                 (JObj [(''error'', JObj
                    [(''message'', JStr ''messages is required and must be a non-empty array''),
                     (''type'', JStr ''invalid_request_error''),
                     (''param'', JStr ''messages''),
                     (''code'', JNull)])]),
               logged = []\<rparr>)"
  using assms
  by (auto simp: chat_completions_def Let_def error_envelope_def nonempty_string_iff
      nonempty_array_iff)

theorem C7_validation_witness:
  "\<not> nullish (JObj [(''model'', JStr []), (''messages'', JNum 5)])
   \<and> \<not> nonempty_string (get_prop (JObj [(''model'', JStr []), (''messages'', JNum 5)]) ''model'')
   \<and> chat_completions read_json sample_clock sample_post_json sample_post_stream 0
        (JObj [(''model'', JStr []), (''messages'', JNum 5)]) =
       \<lparr>upstream_calls = [],
        reply = Json_reply (JNum 400)
          (JObj [(''error'', JObj
             [(''message'', JStr ''you must provide a model parameter''),
              (''type'', JStr ''invalid_request_error''),
              (''param'', JStr ''model''),
              (''code'', JNull)])]),
        logged = []\<rparr>
   \<and> \<not> nullish (JObj [(''model'', JStr ''gpt-4''), (''messages'', JArr [])])
   \<and> nonempty_string (get_prop (JObj [(''model'', JStr ''gpt-4''), (''messages'', JArr [])]) ''model'')
   \<and> \<not> nonempty_array (get_prop (JObj [(''model'', JStr ''gpt-4''), (''messages'', JArr [])])
          ''messages'')
   \<and> chat_completions read_json sample_clock sample_post_json sample_post_stream 0
        (JObj [(''model'', JStr ''gpt-4''), (''messages'', JArr [])]) =
       \<lparr>upstream_calls = [],
        reply = Json_reply (JNum 400)
          (JObj [(''error'', JObj
             [(''message'', JStr ''messages is required and must be a non-empty array''),
              (''type'', JStr ''invalid_request_error''),
              (''param'', JStr ''messages''),
              (''code'', JNull)])]),
        logged = []\<rparr>"
proof -
  let ?b1 = "JObj [(''model'', JStr []), (''messages'', JNum 5)]"
  let ?b2 = "JObj [(''model'', JStr ''gpt-4''), (''messages'', JArr [])]"
  have n1: "\<not> nullish ?b1" and n2: "\<not> nullish ?b2"
    by simp_all
  have h1: "\<not> nonempty_string (get_prop ?b1 ''model'')"
    by simp
  have h2: "nonempty_string (get_prop ?b2 ''model'')"
    "\<not> nonempty_array (get_prop ?b2 ''messages'')"
    by simp_all
  note t1 = C7_validation [where JSON_parse = read_json and clock = sample_clock
      and post_json = sample_post_json and post_stream = sample_post_stream and n = 0, OF n1]
  note t2 = C7_validation [where JSON_parse = read_json and clock = sample_clock
      and post_json = sample_post_json and post_stream = sample_post_stream and n = 0, OF n2]
  from t1 h1 t2 h2 n1 n2 show ?thesis by blast
qed

text \<open>
  C9. For a valid request that does not ask for a stream, when the post to the upstream
  fails with an error, the handler has made that one post and replies once, with an
  error envelope: its status is the status of the upstream's reply when the error
  carries one (a truthy \<^verbatim>\<open>error.response?.status\<close>) and 500 otherwise; its message is the
  message of the upstream's error body when there is one, otherwise the error's own
  message, otherwise \<^verbatim>\<open>Internal server error\<close>; its type is \<^verbatim>\<open>invalid_request_error\<close>,
  its \<^verbatim>\<open>param\<close> is \<^verbatim>\<open>null\<close> and its \<^verbatim>\<open>code\<close> is the status.
\<close>

theorem C9_upstream_error:
  assumes "valid_request body"
    and "\<not> truthy (get_prop body ''stream'')"
    and "post_json (nimRequest body) = Inl e"
  shows "\<exists>status message.
     chat_completions JSON_parse clock post_json post_stream n body =
       \<lparr>upstream_calls = [nimRequest body],
        reply = Json_reply status
          (JObj [(''error'', JObj
             [(''message'', message),
              (''type'', JStr ''invalid_request_error''),
              (''param'', JNull),
              (''code'', status)])]),
        logged = [Proxy_error (or_else (opt_prop (err_response e) ''data'') (err_message e))]\<rparr>
     \<and> status = (if truthy (opt_prop (err_response e) ''status'')
                 then opt_prop (err_response e) ''status'' else JNum 500)
     \<and> message =
         (if truthy (opt_prop (opt_prop (opt_prop (err_response e) ''data'') ''error'') ''message'')
          then opt_prop (opt_prop (opt_prop (err_response e) ''data'') ''error'') ''message''
          else if truthy (err_message e) then err_message e
          else JStr ''Internal server error'')"
  using assms
  by (simp add: valid_request_passes catch_error_def statusCode_def errorMessage_def
      error_envelope_def or_else_def)

theorem C9_upstream_error_witness:
  "valid_request (sample_request ''gpt-4'' False)
   \<and> \<not> truthy (get_prop (sample_request ''gpt-4'' False) ''stream'')
   \<and> failing_post_json (nimRequest (sample_request ''gpt-4'' False)) = Inl sample_upstream_error
   \<and> reply (chat_completions read_json sample_clock failing_post_json sample_post_stream 0
        (sample_request ''gpt-4'' False)) =
       Json_reply (JNum 404)
         (JObj [(''error'', JObj
            [(''message'', JStr ''model not found''),
             (''type'', JStr ''invalid_request_error''),
             (''param'', JNull),
             (''code'', JNum 404)])])"
proof -
  have v: "valid_request (sample_request ''gpt-4'' False)"
    by (simp add: sample_request_valid)
  have s: "\<not> truthy (get_prop (sample_request ''gpt-4'' False) ''stream'')"
    by (simp add: sample_request_fields)
  have f: "failing_post_json (nimRequest (sample_request ''gpt-4'' False)) = Inl sample_upstream_error"
    by (simp add: failing_post_json_def)
  have e: "opt_prop (err_response sample_upstream_error) ''status'' = JNum 404"
    "opt_prop (opt_prop (opt_prop (err_response sample_upstream_error) ''data'') ''error'') ''message''
       = JStr ''model not found''"
    by (simp_all add: sample_upstream_error_def opt_prop_def)
  from C9_upstream_error [where JSON_parse = read_json and clock = sample_clock
      and post_json = failing_post_json and post_stream = sample_post_stream and n = 0, OF v s f]
  have "reply (chat_completions read_json sample_clock failing_post_json sample_post_stream 0
        (sample_request ''gpt-4'' False)) =
       Json_reply (JNum 404)
         (JObj [(''error'', JObj
            [(''message'', JStr ''model not found''),
             (''type'', JStr ''invalid_request_error''),
             (''param'', JNull),
             (''code'', JNum 404)])])"
    by (auto simp: e)
  with v s f show ?thesis by blast
qed

text \<open>
  C6. For every valid request, the \<^verbatim>\<open>model\<close> of the completion envelope that answers it
  (the upstream having replied with a body that is not \<^verbatim>\<open>null\<close>) and the \<^verbatim>\<open>model\<close> of every
  record written to its event stream is the \<^verbatim>\<open>model\<close> of the request body: the name the
  client asked for, whatever backend identifier it resolved to.
\<close>

theorem C6_model_echo:
  assumes "valid_request body"
  shows "(\<not> truthy (get_prop body ''stream'') \<and> post_json (nimRequest body) = Inr data
            \<and> \<not> nullish data \<longrightarrow>
          (\<exists>envelope. reply (chat_completions JSON_parse clock post_json post_stream n body)
                    = Json_reply (JNum 200) envelope
                \<and> get_prop envelope ''model'' = get_prop body ''model''))
       \<and> (truthy (get_prop body ''stream'') \<and> post_stream (nimRequest body) = Inr events \<longrightarrow>
          (\<exists>w. reply (chat_completions JSON_parse clock post_json post_stream n body)
                    = Event_stream w
              \<and> (\<forall>chunk. Write_data chunk \<in> set w \<longrightarrow>
                    get_prop chunk ''model'' = get_prop body ''model'')))"
proof (intro conjI impI)
  assume a: "\<not> truthy (get_prop body ''stream'') \<and> post_json (nimRequest body) = Inr data
              \<and> \<not> nullish data"
  then obtain envelope where
    e: "openaiResponse (clock n) (clock (Suc n)) (get_prop body ''model'') data = Inr envelope"
    using openaiResponse_total by blast
  then have "get_prop envelope ''model'' = get_prop body ''model''"
    by (rule openaiResponse_model)
  with a e show "\<exists>envelope. reply (chat_completions JSON_parse clock post_json post_stream n body)
                    = Json_reply (JNum 200) envelope
                \<and> get_prop envelope ''model'' = get_prop body ''model''"
    by (simp add: valid_request_passes [OF assms])
next
  assume a: "truthy (get_prop body ''stream'') \<and> post_stream (nimRequest body) = Inr events"
  obtain w g st where
    r: "response_data_on JSON_parse clock (get_prop body ''model'')
          \<lparr>buffer = [], readings = n\<rparr> events = (w, g, st)"
    by (cases "response_data_on JSON_parse clock (get_prop body ''model'')
          \<lparr>buffer = [], readings = n\<rparr> events") auto
  have "\<forall>chunk. Write_data chunk \<in> set w \<longrightarrow> get_prop chunk ''model'' = get_prop body ''model''"
    using stream_chunk_model [of _ JSON_parse clock "get_prop body ''model''"
        "\<lparr>buffer = [], readings = n\<rparr>" events]
    by (simp add: r)
  with a r show "\<exists>w. reply (chat_completions JSON_parse clock post_json post_stream n body)
                    = Event_stream w
              \<and> (\<forall>chunk. Write_data chunk \<in> set w \<longrightarrow>
                    get_prop chunk ''model'' = get_prop body ''model'')"
    by (simp add: valid_request_passes [OF assms])
qed

lemma sample_replies:
  "reply (chat_completions read_json sample_clock sample_post_json sample_post_stream 0
            (sample_request ''foo-bar'' False)) = Json_reply (JNum 200) sample_envelope"
  "reply (chat_completions read_json sample_clock sample_post_json sample_post_stream 0
            (sample_request ''foo-bar'' True))
     = Event_stream [Write_data sample_chunk, Write_done, End_response]"
proof -
  have v: "valid_request (sample_request ''foo-bar'' b)" for b
    by (simp add: sample_request_valid)
  show "reply (chat_completions read_json sample_clock sample_post_json sample_post_stream 0
            (sample_request ''foo-bar'' False)) = Json_reply (JNum 200) sample_envelope"
    by (simp add: valid_request_passes [OF v] sample_request_fields sample_post_json_def
        sample_envelope_eq)
  have "fst (response_data_on read_json sample_clock (JStr ''foo-bar'')
               \<lparr>buffer = [], readings = 0\<rparr> sample_events)
          = [Write_data sample_chunk, Write_done, End_response]"
    by (rule sample_stream_writes)
  then show "reply (chat_completions read_json sample_clock sample_post_json sample_post_stream 0
            (sample_request ''foo-bar'' True))
     = Event_stream [Write_data sample_chunk, Write_done, End_response]"
    by (auto simp: valid_request_passes [OF v] sample_request_fields sample_post_stream_def
        split: prod.splits)
qed

theorem C6_model_echo_witness:
  "valid_request (sample_request ''foo-bar'' False)
   \<and> nimModel ''foo-bar'' = DEFAULT_NIM_MODEL
   \<and> reply (chat_completions read_json sample_clock sample_post_json sample_post_stream 0
        (sample_request ''foo-bar'' False)) = Json_reply (JNum 200) sample_envelope
   \<and> get_prop sample_envelope ''model'' = JStr ''foo-bar''
   \<and> valid_request (sample_request ''foo-bar'' True)
   \<and> reply (chat_completions read_json sample_clock sample_post_json sample_post_stream 0
        (sample_request ''foo-bar'' True))
       = Event_stream [Write_data sample_chunk, Write_done, End_response]
   \<and> get_prop sample_chunk ''model'' = JStr ''foo-bar''"
proof -
  have v: "valid_request (sample_request ''foo-bar'' b)" for b
    by (simp add: sample_request_valid)
  have j: "\<not> truthy (get_prop (sample_request ''foo-bar'' False) ''stream'')
     \<and> sample_post_json (nimRequest (sample_request ''foo-bar'' False)) = Inr sample_upstream_body
     \<and> \<not> nullish sample_upstream_body"
    by (simp add: sample_request_fields sample_post_json_def sample_upstream_body_def)
  have s: "truthy (get_prop (sample_request ''foo-bar'' True) ''stream'')
     \<and> sample_post_stream (nimRequest (sample_request ''foo-bar'' True)) = Inr sample_events"
    by (simp add: sample_request_fields sample_post_stream_def)
  note t1 = C6_model_echo [where JSON_parse = read_json and clock = sample_clock
      and post_json = sample_post_json and post_stream = sample_post_stream and n = 0
      and data = sample_upstream_body and events = sample_events, OF v [of False]]
  note t2 = C6_model_echo [where JSON_parse = read_json and clock = sample_clock
      and post_json = sample_post_json and post_stream = sample_post_stream and n = 0
      and data = sample_upstream_body and events = sample_events, OF v [of True]]
  from t1 j have "get_prop sample_envelope ''model'' = JStr ''foo-bar''"
    by (auto simp: sample_replies sample_request_fields)
  moreover from t2 s have "get_prop sample_chunk ''model'' = JStr ''foo-bar''"
    by (auto simp: sample_replies sample_request_fields)
  ultimately show ?thesis
    using v sample_replies nimModel_examples(2) by blast
qed

end
